theory Spec2Isabelle
  imports Complex_Main
begin

section \<open>Python values shared by both builders\<close>

text \<open>
  Exceptions are values: a class and the text that \<^verbatim>\<open>str(e)\<close> gives. The classes are the
  ones that the calls of \<^verbatim>\<open>cloud_architecture_viz.py\<close> can raise, together with
  \<^verbatim>\<open>KeyboardInterrupt\<close>, which derives from \<^verbatim>\<open>BaseException\<close> only.
\<close>

datatype exc_class =
    ImportError | ModuleNotFoundError
  | OSError | FileNotFoundError | FileExistsError | PermissionError
  | NotADirectoryError | IsADirectoryError
  | KeyError | ValueError | RuntimeError
  | KeyboardInterrupt

datatype exception = Exc exc_class string

fun exc_str :: "exception \<Rightarrow> string" where
  "exc_str (Exc c msg) = msg"

text \<open>\<^verbatim>\<open>isinstance(e, ImportError)\<close>: \<^verbatim>\<open>ModuleNotFoundError\<close> is its only subclass.\<close>

fun is_ImportError :: "exception \<Rightarrow> bool" where
  "is_ImportError (Exc c msg) = (c = ImportError \<or> c = ModuleNotFoundError)"

text \<open>\<^verbatim>\<open>isinstance(e, Exception)\<close>: every class above but \<^verbatim>\<open>KeyboardInterrupt\<close>.\<close>

fun is_Exception :: "exception \<Rightarrow> bool" where
  "is_Exception (Exc c msg) = (c \<noteq> KeyboardInterrupt)"

text \<open>\<^verbatim>\<open>isinstance(e, OSError)\<close>: the errors of the file system.\<close>

fun is_OSError :: "exception \<Rightarrow> bool" where
  "is_OSError (Exc c msg) =
     (c = OSError \<or> c = FileNotFoundError \<or> c = FileExistsError \<or> c = PermissionError \<or>
      c = NotADirectoryError \<or> c = IsADirectoryError)"

text \<open>
  \<^verbatim>\<open>repr\<close> of a string without quotes or escapes in it, which is what \<^verbatim>\<open>str\<close> of a
  \<^verbatim>\<open>KeyError\<close> shows for a missing string key.
\<close>

definition repr_str :: "string \<Rightarrow> string" where
  "repr_str s = [CHR 0x27] @ s @ [CHR 0x27]"

text \<open>
  A dict with string keys is an association list in insertion order; \<^verbatim>\<open>d[k]\<close> raises
  \<^verbatim>\<open>KeyError\<close> for a missing key.
\<close>

definition dict_get :: "(string \<times> 'v) list \<Rightarrow> string \<Rightarrow> exception + 'v" where
  "dict_get d k = (case map_of d k of None \<Rightarrow> Inl (Exc KeyError (repr_str k)) | Some v \<Rightarrow> Inr v)"

definition dict_keys :: "(string \<times> 'v) list \<Rightarrow> string list" where
  "dict_keys d = map fst d"

text \<open>A list comprehension whose body may raise stops at the first element that does.\<close>

fun map_exc :: "('a \<Rightarrow> exception + 'b) \<Rightarrow> 'a list \<Rightarrow> exception + 'b list" where
  "map_exc f [] = Inr []"
| "map_exc f (x # xs) =
     (case f x of
        Inl e \<Rightarrow> Inl e
      | Inr y \<Rightarrow> (case map_exc f xs of Inl e \<Rightarrow> Inl e | Inr ys \<Rightarrow> Inr (y # ys)))"

subsection \<open>\<^verbatim>\<open>str.replace\<close> and \<^verbatim>\<open>str.title\<close> on ASCII text\<close>

definition ascii_lowercase :: string where
  "ascii_lowercase = ''abcdefghijklmnopqrstuvwxyz''"

definition ascii_uppercase :: string where
  "ascii_uppercase = ''ABCDEFGHIJKLMNOPQRSTUVWXYZ''"

definition str_islower :: "char \<Rightarrow> bool" where
  "str_islower c = (c \<in> set ascii_lowercase)"

definition str_isupper :: "char \<Rightarrow> bool" where
  "str_isupper c = (c \<in> set ascii_uppercase)"

definition str_upper :: "char \<Rightarrow> char" where
  "str_upper c = (case map_of (zip ascii_lowercase ascii_uppercase) c of Some u \<Rightarrow> u | None \<Rightarrow> c)"

definition str_lower :: "char \<Rightarrow> char" where
  "str_lower c = (case map_of (zip ascii_uppercase ascii_lowercase) c of Some l \<Rightarrow> l | None \<Rightarrow> c)"

text \<open>\<^verbatim>\<open>s.replace(old, new)\<close> for a one-character \<^verbatim>\<open>old\<close>.\<close>

definition str_replace :: "char \<Rightarrow> string \<Rightarrow> string \<Rightarrow> string" where
  "str_replace old new s = concat (map (\<lambda>c. if c = old then new else [c]) s)"

text \<open>
  \<^verbatim>\<open>s.title()\<close>: a cased character is upper-cased when the character before it is not
  cased, and lower-cased when it is. The flag is CPython's \<^verbatim>\<open>previous_is_cased\<close>.
\<close>

fun title_from :: "bool \<Rightarrow> string \<Rightarrow> string" where
  "title_from previous_is_cased [] = []"
| "title_from previous_is_cased (c # cs) =
     (if str_islower c then
        (if previous_is_cased then c else str_upper c) # title_from True cs
      else if str_isupper c then
        (if previous_is_cased then str_lower c else c) # title_from True cs
      else c # title_from False cs)"

definition str_title :: "string \<Rightarrow> string" where
  "str_title s = title_from False s"

section \<open>The static diagram: \<^verbatim>\<open>create_matplotlib_visualization\<close>\<close>

text \<open>
  Numbers of the static diagram are rationals: the literals \<^verbatim>\<open>0.2\<close>, \<^verbatim>\<open>1.2\<close>, ... stand
  for themselves and \<^verbatim>\<open>x + w/2\<close> is exact. What matplotlib keeps of the calls made on
  the axes is the list of artists, in call order, and the settings of the axes.
\<close>

datatype artist =
    Rectangle "rat \<times> rat" rat rat rat string string rat "string option"
      \<comment> \<open>xy, width, height, linewidth, edgecolor, facecolor, alpha, linestyle\<close>
  | Text rat rat string rat string "string option" string string
      \<comment> \<open>x, y, s, fontsize, ha, va, weight, color\<close>
  | Annotation string "rat \<times> rat" "rat \<times> rat" string rat string
      \<comment> \<open>text, xy, xytext, arrowstyle, lw, color\<close>

record legend =
  lg_handles :: "(string \<times> string) list"  \<comment> \<open>\<^verbatim>\<open>Patch(color, label)\<close>\<close>
  lg_loc :: string
  lg_bbox_to_anchor :: "rat \<times> rat"

record mpl_figure =
  fig_figsize :: "rat \<times> rat"
  ax_xlim :: "(rat \<times> rat) option"
  ax_ylim :: "(rat \<times> rat) option"
  ax_aspect :: "string option"
  ax_artists :: "artist list"
  ax_title :: "(string \<times> rat \<times> string \<times> rat) option"  \<comment> \<open>label, fontsize, weight, pad\<close>
  ax_xlabel :: "(string \<times> rat) option"
  ax_xticks :: "rat list option"
  ax_yticks :: "rat list option"
  ax_legend :: "legend option"
  fig_tight_layout :: bool

type_synonym component = "rat \<times> rat \<times> rat \<times> rat \<times> string \<times> string"
  \<comment> \<open>x, y, width, height, label, color_key\<close>

type_synonym connection = "rat \<times> rat \<times> rat \<times> rat"
  \<comment> \<open>start_x, start_y, end_x, end_y\<close>

definition plt_subplots :: "rat \<times> rat \<Rightarrow> mpl_figure" where
  "plt_subplots figsize =
     \<lparr>fig_figsize = figsize, ax_xlim = None, ax_ylim = None, ax_aspect = None,
      ax_artists = [], ax_title = None, ax_xlabel = None, ax_xticks = None,
      ax_yticks = None, ax_legend = None, fig_tight_layout = False\<rparr>"

text \<open>\<^verbatim>\<open>ax.add_patch\<close>, \<^verbatim>\<open>ax.text\<close> and \<^verbatim>\<open>ax.annotate\<close> each add one artist.\<close>

definition add_artist :: "artist \<Rightarrow> mpl_figure \<Rightarrow> mpl_figure" where
  "add_artist a ax = ax\<lparr>ax_artists := ax_artists ax @ [a]\<rparr>"

definition colors :: "(string \<times> string) list" where
  "colors =
     [(''user'', ''#4CAF50''),
      (''web'', ''#2196F3''),
      (''app'', ''#FF9800''),
      (''db'', ''#9C27B0''),
      (''cache'', ''#F44336''),
      (''storage'', ''#795548''),
      (''network'', ''#607D8B'')]"

definition cloud_rect :: artist where
  "cloud_rect = Rectangle (0.5, 1) 9 6 2 ''lightblue'' ''lightcyan'' 0.3 (Some ''--'')"

definition cloud_text :: artist where
  "cloud_text = Text 5 7.5 ''Cloud Infrastructure'' 16 ''center'' None ''bold'' ''darkblue''"

definition components :: "component list" where
  "components =
     [(1, 0.2, 1.2, 0.6, ''Users'', ''user''),
      (1, 5.5, 1.5, 0.8, ''Load Balancer'', ''network''),
      (3.5, 6, 1.5, 0.6, ''Web Server 1'', ''web''),
      (3.5, 5, 1.5, 0.6, ''Web Server 2'', ''web''),
      (6, 5.5, 1.5, 0.8, ''App Server'', ''app''),
      (8, 6, 1.2, 0.6, ''Database'', ''db''),
      (8, 4.5, 1.2, 0.6, ''Redis Cache'', ''cache''),
      (6, 3, 1.5, 0.8, ''File Storage'', ''storage''),
      (3.5, 2, 1.5, 0.6, ''API Gateway'', ''network''),
      (1, 2.5, 1.5, 0.6, ''CDN'', ''network'')]"

definition connections :: "connection list" where
  "connections =
     [(1.6, 0.8, 1.7, 5.5),
      (2.5, 5.9, 3.5, 6.2),
      (2.5, 5.7, 3.5, 5.2),
      (5, 6.2, 6, 5.9),
      (5, 5.2, 6, 5.7),
      (7.5, 5.9, 8, 6.2),
      (7.5, 5.7, 8, 4.9),
      (6.7, 5.5, 6.7, 3.8),
      (1.6, 0.8, 3.5, 2.2),
      (1.6, 0.8, 1.7, 2.5),
      (2.5, 2.8, 3.5, 2.4),
      (5, 2.2, 6, 3.2)]"

text \<open>
  The body of the loop over the components: the rectangle needs \<^verbatim>\<open>colors[color_key]\<close>,
  which raises for an unknown key; the label is centred on the rectangle.
\<close>

fun component_rect :: "(string \<times> string) list \<Rightarrow> component \<Rightarrow> exception + artist" where
  "component_rect cols (x, y, w, h, label, color_key) =
     (case dict_get cols color_key of
        Inl e \<Rightarrow> Inl e
      | Inr facecolor \<Rightarrow> Inr (Rectangle (x, y) w h 2 ''black'' facecolor 0.7 None))"

fun component_label :: "component \<Rightarrow> artist" where
  "component_label (x, y, w, h, label, color_key) =
     Text (x + w / 2) (y + h / 2) label 9 ''center'' (Some ''center'') ''bold'' ''white''"

fun draw_components ::
  "(string \<times> string) list \<Rightarrow> component list \<Rightarrow> mpl_figure \<Rightarrow> exception + mpl_figure" where
  "draw_components cols [] ax = Inr ax"
| "draw_components cols (c # cs) ax =
     (case component_rect cols c of
        Inl e \<Rightarrow> Inl e
      | Inr rect \<Rightarrow> draw_components cols cs (add_artist (component_label c) (add_artist rect ax)))"

text \<open>The body of the loop over the connections: one arrow from the start to the end point.\<close>

fun connection_arrow :: "connection \<Rightarrow> artist" where
  "connection_arrow (start_x, start_y, end_x, end_y) =
     Annotation '''' (end_x, end_y) (start_x, start_y) ''->'' 1.5 ''darkgray''"

fun draw_connections :: "connection list \<Rightarrow> mpl_figure \<Rightarrow> mpl_figure" where
  "draw_connections [] ax = ax"
| "draw_connections (c # cs) ax = draw_connections cs (add_artist (connection_arrow c) ax)"

text \<open>The handles of the legend: \<^verbatim>\<open>Patch(color=colors[key], label=key.title())\<close> for each key.\<close>

definition legend_elements :: "(string \<times> string) list \<Rightarrow> exception + (string \<times> string) list" where
  "legend_elements cols =
     map_exc (\<lambda>key. case dict_get cols key of
                      Inl e \<Rightarrow> Inl e
                    | Inr color \<Rightarrow> Inr (color, str_title key))
             (dict_keys cols)"

text \<open>
  The function with its three tables as parameters; \<^verbatim>\<open>create_matplotlib_visualization\<close>
  is this body at the tables written in it.
\<close>

definition matplotlib_visualization_of ::
  "(string \<times> string) list \<Rightarrow> component list \<Rightarrow> connection list \<Rightarrow> exception + mpl_figure" where
  "matplotlib_visualization_of cols comps conns =
     (let ax0 = plt_subplots (14, 10);
          ax1 = ax0\<lparr>ax_xlim := Some (0, 10), ax_ylim := Some (0, 8), ax_aspect := Some ''equal''\<rparr>;
          ax2 = add_artist cloud_rect ax1;
          ax3 = add_artist cloud_text ax2
      in case draw_components cols comps ax3 of
           Inl e \<Rightarrow> Inl e
         | Inr ax4 \<Rightarrow>
             (let ax5 = draw_connections conns ax4;
                  ax6 = ax5\<lparr>ax_title := Some (''Simple Cloud Architecture Diagram'', 18, ''bold'', 20),
                            ax_xlabel := Some (''Components and Data Flow'', 12),
                            ax_xticks := Some [], ax_yticks := Some []\<rparr>
              in case legend_elements cols of
                   Inl e \<Rightarrow> Inl e
                 | Inr handles \<Rightarrow>
                     Inr (ax6\<lparr>ax_legend := Some \<lparr>lg_handles = handles,
                                                     lg_loc = ''upper right'',
                                                     lg_bbox_to_anchor = (1.15, 1)\<rparr>,
                              fig_tight_layout := True\<rparr>)))"

definition create_matplotlib_visualization :: "exception + mpl_figure" where
  "create_matplotlib_visualization = matplotlib_visualization_of colors components connections"

text \<open>What a figure shows: its rectangles, its texts and its arrows, each in drawing order.\<close>

fun is_rectangle :: "artist \<Rightarrow> bool" where
  "is_rectangle (Rectangle xy w h lw ec fc a ls) = True"
| "is_rectangle _ = False"

fun is_text :: "artist \<Rightarrow> bool" where
  "is_text (Text x y s fs ha va wt col) = True"
| "is_text _ = False"

fun is_arrow :: "artist \<Rightarrow> bool" where
  "is_arrow (Annotation s xy xytext st lw col) = True"
| "is_arrow _ = False"

definition rectangles :: "mpl_figure \<Rightarrow> artist list" where
  "rectangles fig = filter is_rectangle (ax_artists fig)"

definition texts :: "mpl_figure \<Rightarrow> artist list" where
  "texts fig = filter is_text (ax_artists fig)"

definition arrows :: "mpl_figure \<Rightarrow> artist list" where
  "arrows fig = filter is_arrow (ax_artists fig)"

section \<open>The interactive diagram: \<^verbatim>\<open>create_interactive_visualization\<close>\<close>

subsection \<open>The directed graph of networkx\<close>

text \<open>
  The attribute dict of a node has at most the keys \<^verbatim>\<open>'pos'\<close>, \<^verbatim>\<open>'color'\<close> and
  \<^verbatim>\<open>'size'\<close>; a key that is absent is \<open>None\<close>. The dict \<^verbatim>\<open>{}\<close> that networkx gives a
  node it adds by itself has all three absent.
\<close>

record node_attrs =
  attr_pos :: "(int \<times> int) option"
  attr_color :: "string option"
  attr_size :: "int option"

definition empty_attrs :: node_attrs where
  "empty_attrs = \<lparr>attr_pos = None, attr_color = None, attr_size = None\<rparr>"

text \<open>\<^verbatim>\<open>d.update(attr)\<close>: the keys of \<^verbatim>\<open>attr\<close> overwrite, the others stay.\<close>

definition attrs_update :: "node_attrs \<Rightarrow> node_attrs \<Rightarrow> node_attrs" where
  "attrs_update d attr =
     \<lparr>attr_pos = (case attr_pos attr of None \<Rightarrow> attr_pos d | Some p \<Rightarrow> Some p),
      attr_color = (case attr_color attr of None \<Rightarrow> attr_color d | Some c \<Rightarrow> Some c),
      attr_size = (case attr_size attr of None \<Rightarrow> attr_size d | Some s \<Rightarrow> Some s)\<rparr>"

text \<open>
  A \<^verbatim>\<open>DiGraph\<close> keeps two dicts in insertion order: \<^verbatim>\<open>_node\<close>, from a node to its
  attributes, and \<^verbatim>\<open>_succ\<close>, from a node to its successors. Every node has an entry in
  both, made when the node is added.
\<close>

record digraph =
  g_node :: "(string \<times> node_attrs) list"
  g_succ :: "(string \<times> string list) list"

definition nx_DiGraph :: digraph where
  "nx_DiGraph = \<lparr>g_node = [], g_succ = []\<rparr>"

text \<open>
  \<^verbatim>\<open>G.add_node(n, **attr)\<close>: a new node gets its two entries at the end; a node that is
  there already has its attributes updated in place.
\<close>

definition add_node :: "digraph \<Rightarrow> string \<Rightarrow> node_attrs \<Rightarrow> digraph" where
  "add_node G n attr =
     (if n \<notin> set (dict_keys (g_succ G))
      then \<lparr>g_node = g_node G @ [(n, attrs_update empty_attrs attr)],
            g_succ = g_succ G @ [(n, [])]\<rparr>
      else G\<lparr>g_node := map (\<lambda>(k, d). if k = n then (k, attrs_update d attr) else (k, d))
                           (g_node G)\<rparr>)"

text \<open>
  One round of the loop of \<^verbatim>\<open>G.add_edges_from\<close>: an endpoint that is not a node yet is
  added with no attributes, then \<^verbatim>\<open>v\<close> becomes a successor of \<^verbatim>\<open>u\<close>, once however
  often the edge is given.
\<close>

definition add_missing_node :: "digraph \<Rightarrow> string \<Rightarrow> digraph" where
  "add_missing_node G n =
     (if n \<notin> set (dict_keys (g_succ G))
      then \<lparr>g_node = g_node G @ [(n, empty_attrs)], g_succ = g_succ G @ [(n, [])]\<rparr>
      else G)"

definition add_edge :: "digraph \<Rightarrow> string \<times> string \<Rightarrow> digraph" where
  "add_edge G e =
     (let u = fst e; v = snd e;
          G1 = add_missing_node G u;
          G2 = add_missing_node G1 v
      in G2\<lparr>g_succ := map (\<lambda>(k, nbrs). if k = u \<and> v \<notin> set nbrs then (k, nbrs @ [v])
                                        else (k, nbrs))
                           (g_succ G2)\<rparr>)"

fun add_edges_from :: "digraph \<Rightarrow> (string \<times> string) list \<Rightarrow> digraph" where
  "add_edges_from G [] = G"
| "add_edges_from G (e # es) = add_edges_from (add_edge G e) es"

text \<open>\<^verbatim>\<open>G.nodes()\<close> and \<^verbatim>\<open>G.edges()\<close>, in the order in which they are iterated.\<close>

definition digraph_nodes :: "digraph \<Rightarrow> string list" where
  "digraph_nodes G = dict_keys (g_node G)"

definition digraph_edges :: "digraph \<Rightarrow> (string \<times> string) list" where
  "digraph_edges G = concat (map (\<lambda>(n, nbrs). map (\<lambda>nbr. (n, nbr)) nbrs) (g_succ G))"

text \<open>\<^verbatim>\<open>nx.get_node_attributes(G, 'pos')\<close>: the nodes that have the attribute, with it.\<close>

definition get_node_attributes_pos :: "digraph \<Rightarrow> (string \<times> (int \<times> int)) list" where
  "get_node_attributes_pos G =
     List.map_filter (\<lambda>(n, d). map_option (\<lambda>p. (n, p)) (attr_pos d)) (g_node G)"

subsection \<open>The Plotly figure\<close>

record edge_scatter =
  es_x :: "int option list"
  es_y :: "int option list"
  es_line_width :: int
  es_line_color :: string
  es_hoverinfo :: string
  es_mode :: string

record node_scatter =
  ns_x :: "int list"
  ns_y :: "int list"
  ns_mode :: string
  ns_hoverinfo :: string
  ns_text :: "string list"
  ns_textposition :: string
  ns_textfont_size :: int
  ns_textfont_color :: string
  ns_marker_size :: "int list"
  ns_marker_color :: "string list"
  ns_marker_line_width :: int
  ns_marker_line_color :: string

record layout_annotation =
  an_text :: string
  an_showarrow :: bool
  an_xref :: string
  an_yref :: string
  an_x :: rat
  an_y :: rat
  an_xanchor :: string
  an_yanchor :: string
  an_font_color :: string
  an_font_size :: int

record layout_axis =
  axis_showgrid :: bool
  axis_zeroline :: bool
  axis_showticklabels :: bool

record go_layout =
  lo_title_text :: string
  lo_title_x :: rat
  lo_title_font_size :: int
  lo_showlegend :: bool
  lo_hovermode :: string
  lo_margin :: "int \<times> int \<times> int \<times> int"  \<comment> \<open>b, l, r, t\<close>
  lo_annotations :: "layout_annotation list"
  lo_xaxis :: layout_axis
  lo_yaxis :: layout_axis
  lo_plot_bgcolor :: string

record go_figure =
  fig_edge_trace :: edge_scatter
  fig_node_trace :: node_scatter
  fig_layout :: go_layout

definition figure_layout :: go_layout where
  "figure_layout =
     \<lparr>lo_title_text = ''Interactive Cloud Architecture Visualization'',
      lo_title_x = 0.5,
      lo_title_font_size = 20,
      lo_showlegend = False,
      lo_hovermode = ''closest'',
      lo_margin = (20, 5, 5, 40),
      lo_annotations =
        [\<lparr>an_text = ''Click and drag to explore the architecture'',
          an_showarrow = False, an_xref = ''paper'', an_yref = ''paper'',
          an_x = 0.005, an_y = - 0.002, an_xanchor = ''left'', an_yanchor = ''bottom'',
          an_font_color = ''gray'', an_font_size = 12\<rparr>],
      lo_xaxis = \<lparr>axis_showgrid = False, axis_zeroline = False, axis_showticklabels = False\<rparr>,
      lo_yaxis = \<lparr>axis_showgrid = False, axis_zeroline = False, axis_showticklabels = False\<rparr>,
      lo_plot_bgcolor = ''white''\<rparr>"

subsection \<open>The builder\<close>

definition nodes :: "(string \<times> node_attrs) list" where
  "nodes =
     [(''users'', \<lparr>attr_pos = Some (1, 1), attr_color = Some ''#4CAF50'', attr_size = Some 30\<rparr>),
      (''cdn'', \<lparr>attr_pos = Some (1, 3), attr_color = Some ''#607D8B'', attr_size = Some 25\<rparr>),
      (''load_balancer'', \<lparr>attr_pos = Some (2, 5), attr_color = Some ''#607D8B'', attr_size = Some 25\<rparr>),
      (''web_server_1'', \<lparr>attr_pos = Some (4, 6), attr_color = Some ''#2196F3'', attr_size = Some 25\<rparr>),
      (''web_server_2'', \<lparr>attr_pos = Some (4, 4), attr_color = Some ''#2196F3'', attr_size = Some 25\<rparr>),
      (''api_gateway'', \<lparr>attr_pos = Some (4, 2), attr_color = Some ''#607D8B'', attr_size = Some 25\<rparr>),
      (''app_server'', \<lparr>attr_pos = Some (6, 5), attr_color = Some ''#FF9800'', attr_size = Some 30\<rparr>),
      (''database'', \<lparr>attr_pos = Some (8, 6), attr_color = Some ''#9C27B0'', attr_size = Some 30\<rparr>),
      (''cache'', \<lparr>attr_pos = Some (8, 4), attr_color = Some ''#F44336'', attr_size = Some 25\<rparr>),
      (''storage'', \<lparr>attr_pos = Some (6, 2), attr_color = Some ''#795548'', attr_size = Some 25\<rparr>)]"

definition edges :: "(string \<times> string) list" where
  "edges =
     [(''users'', ''cdn''),
      (''users'', ''load_balancer''),
      (''users'', ''api_gateway''),
      (''cdn'', ''load_balancer''),
      (''load_balancer'', ''web_server_1''),
      (''load_balancer'', ''web_server_2''),
      (''web_server_1'', ''app_server''),
      (''web_server_2'', ''app_server''),
      (''app_server'', ''database''),
      (''app_server'', ''cache''),
      (''app_server'', ''storage''),
      (''api_gateway'', ''storage''),
      (''api_gateway'', ''app_server'')]"

text \<open>\<^verbatim>\<open>nodes[node]['color']\<close> and \<^verbatim>\<open>nodes[node]['size']\<close>: two lookups, each may raise.\<close>

definition node_color :: "(string \<times> node_attrs) list \<Rightarrow> string \<Rightarrow> exception + string" where
  "node_color tab node =
     (case dict_get tab node of
        Inl e \<Rightarrow> Inl e
      | Inr d \<Rightarrow> (case attr_color d of
                   None \<Rightarrow> Inl (Exc KeyError (repr_str ''color''))
                 | Some c \<Rightarrow> Inr c))"

definition node_size :: "(string \<times> node_attrs) list \<Rightarrow> string \<Rightarrow> exception + int" where
  "node_size tab node =
     (case dict_get tab node of
        Inl e \<Rightarrow> Inl e
      | Inr d \<Rightarrow> (case attr_size d of
                   None \<Rightarrow> Inl (Exc KeyError (repr_str ''size''))
                 | Some s \<Rightarrow> Inr s))"

text \<open>The loop over \<^verbatim>\<open>G.edges()\<close>, which extends \<^verbatim>\<open>edge_x\<close> and \<^verbatim>\<open>edge_y\<close>.\<close>

fun edge_loop ::
  "(string \<times> (int \<times> int)) list \<Rightarrow> (string \<times> string) list \<Rightarrow>
   int option list \<times> int option list \<Rightarrow> exception + (int option list \<times> int option list)" where
  "edge_loop pos [] acc = Inr acc"
| "edge_loop pos (edge # es) (edge_x, edge_y) =
     (case dict_get pos (fst edge) of
        Inl e \<Rightarrow> Inl e
      | Inr (x0, y0) \<Rightarrow>
          (case dict_get pos (snd edge) of
             Inl e \<Rightarrow> Inl e
           | Inr (x1, y1) \<Rightarrow>
               edge_loop pos es (edge_x @ [Some x0, Some x1, None],
                                 edge_y @ [Some y0, Some y1, None])))"

definition pos_x :: "(string \<times> (int \<times> int)) list \<Rightarrow> string \<Rightarrow> exception + int" where
  "pos_x pos node = (case dict_get pos node of Inl e \<Rightarrow> Inl e | Inr p \<Rightarrow> Inr (fst p))"

definition pos_y :: "(string \<times> (int \<times> int)) list \<Rightarrow> string \<Rightarrow> exception + int" where
  "pos_y pos node = (case dict_get pos node of Inl e \<Rightarrow> Inl e | Inr p \<Rightarrow> Inr (snd p))"

definition node_text :: "string \<Rightarrow> string" where
  "node_text node = str_title (str_replace (CHR ''_'') '' '' node)"

definition build_graph :: "(string \<times> node_attrs) list \<Rightarrow> (string \<times> string) list \<Rightarrow> digraph" where
  "build_graph tab es = add_edges_from (fold (\<lambda>(node, attrs) G. add_node G node attrs) tab nx_DiGraph) es"

text \<open>
  The function with its two tables as parameters; \<^verbatim>\<open>create_interactive_visualization\<close>
  is this body at the tables written in it.
\<close>

definition interactive_visualization_of ::
  "(string \<times> node_attrs) list \<Rightarrow> (string \<times> string) list \<Rightarrow> exception + go_figure" where
  "interactive_visualization_of tab es =
     (let G = build_graph tab es;
          pos = get_node_attributes_pos G
      in case map_exc (node_color tab) (digraph_nodes G) of Inl e \<Rightarrow> Inl e | Inr node_colors \<Rightarrow>
         case map_exc (node_size tab) (digraph_nodes G) of Inl e \<Rightarrow> Inl e | Inr node_sizes \<Rightarrow>
         case edge_loop pos (digraph_edges G) ([], []) of Inl e \<Rightarrow> Inl e | Inr (edge_x, edge_y) \<Rightarrow>
         case map_exc (pos_x pos) (digraph_nodes G) of Inl e \<Rightarrow> Inl e | Inr node_x \<Rightarrow>
         case map_exc (pos_y pos) (digraph_nodes G) of Inl e \<Rightarrow> Inl e | Inr node_y \<Rightarrow>
           Inr \<lparr>fig_edge_trace =
                  \<lparr>es_x = edge_x, es_y = edge_y, es_line_width = 2, es_line_color = ''#888'',
                   es_hoverinfo = ''none'', es_mode = ''lines''\<rparr>,
                fig_node_trace =
                  \<lparr>ns_x = node_x, ns_y = node_y, ns_mode = ''markers+text'',
                   ns_hoverinfo = ''text'',
                   ns_text = map node_text (digraph_nodes G),
                   ns_textposition = ''middle center'',
                   ns_textfont_size = 10, ns_textfont_color = ''white'',
                   ns_marker_size = node_sizes, ns_marker_color = node_colors,
                   ns_marker_line_width = 2, ns_marker_line_color = ''black''\<rparr>,
                fig_layout = figure_layout\<rparr>)"

definition create_interactive_visualization :: "exception + go_figure" where
  "create_interactive_visualization = interactive_visualization_of nodes edges"

text \<open>
  What the edge trace shows: the line segments, one for each three entries of the two
  coordinate lists. An entry that is not of the shape \<^verbatim>\<open>x0, x1, None\<close> ends the reading.
\<close>

fun segments :: "int option list \<Rightarrow> int option list \<Rightarrow> ((int \<times> int) \<times> (int \<times> int)) list" where
  "segments (Some x0 # Some x1 # None # xs) (Some y0 # Some y1 # None # ys) =
     ((x0, y0), (x1, y1)) # segments xs ys"
| "segments _ _ = []"

section \<open>The orchestration: \<^verbatim>\<open>main\<close>\<close>

subsection \<open>The world \<^verbatim>\<open>main\<close> runs in\<close>

text \<open>
  What \<^verbatim>\<open>main\<close> changes is the file system, the standard output and the browser. A
  file holds either the image that \<^verbatim>\<open>savefig\<close> renders from a figure, or text.
\<close>

datatype content =
    Png mpl_figure int string  \<comment> \<open>figure, dpi, bbox_inches\<close>
  | Html string

datatype fsnode = Dir | File content

record world =
  fs :: "string \<Rightarrow> fsnode option"
  stdout :: "string list"  \<comment> \<open>one entry for each call of \<^verbatim>\<open>print\<close>\<close>
  browser :: "string list"  \<comment> \<open>the URLs that a browser was launched with\<close>

text \<open>
  What \<^verbatim>\<open>main\<close> reads of its surroundings, and the library calls that can fail for
  reasons outside the program (a missing backend, a full disk, a directory that is not
  writable): \<open>fault\<close> gives the exception that such a call raises in this run, if any.
  \<open>plot_div\<close> is \<^verbatim>\<open>pyo.plot(fig, output_type='div', include_plotlyjs=True)\<close>, whose
  text is the library's own.
\<close>

datatype step =
    BuildStatic | SaveFig | BuildInteractive | MakeDirs | Plot | OpenHtml | WriteHtml
  | OpenBrowser

record env =
  tmpdir :: string  \<comment> \<open>\<^verbatim>\<open>tempfile.gettempdir()\<close>\<close>
  cwd :: string  \<comment> \<open>\<^verbatim>\<open>os.getcwd()\<close>\<close>
  now :: string  \<comment> \<open>\<^verbatim>\<open>datetime.now().strftime('%Y-%m-%d %H:%M:%S')\<close>\<close>
  plot_div :: "go_figure \<Rightarrow> string"
  browser_found :: bool  \<comment> \<open>what \<^verbatim>\<open>webbrowser.open\<close> returns\<close>
  fault :: "step \<Rightarrow> exception option"

text \<open>\<^verbatim>\<open>os.path.join\<close> of two parts and \<^verbatim>\<open>os.path.dirname\<close>, as \<^verbatim>\<open>posixpath\<close> has them.\<close>

definition os_path_join :: "string \<Rightarrow> string \<Rightarrow> string" where
  "os_path_join a b =
     (if b \<noteq> [] \<and> hd b = CHR ''/'' then b
      else if a = [] \<or> last a = CHR ''/'' then a @ b
      else a @ ''/'' @ b)"

definition os_path_dirname :: "string \<Rightarrow> string" where
  "os_path_dirname p =
     (let head = rev (dropWhile (\<lambda>c. c \<noteq> CHR ''/'') (rev p))
      in if head \<noteq> [] \<and> head \<noteq> replicate (length head) (CHR ''/'')
         then rev (dropWhile (\<lambda>c. c = CHR ''/'') (rev head))
         else head)"

text \<open>
  Creating a file for writing (\<^verbatim>\<open>open(path, 'w')\<close>, and \<^verbatim>\<open>savefig\<close> on a path): the
  directory of the path has to be there, and the path must not be a directory.
\<close>

definition fs_create ::
  "(string \<Rightarrow> fsnode option) \<Rightarrow> string \<Rightarrow> content \<Rightarrow> exception + (string \<Rightarrow> fsnode option)" where
  "fs_create f path c =
     (case f path of
        Some Dir \<Rightarrow> Inl (Exc IsADirectoryError (''[Errno 21] Is a directory: '' @ repr_str path))
      | _ \<Rightarrow>
         (case f (os_path_dirname path) of
            None \<Rightarrow>
              Inl (Exc FileNotFoundError
                     (''[Errno 2] No such file or directory: '' @ repr_str path))
          | Some (File _) \<Rightarrow>
              Inl (Exc NotADirectoryError (''[Errno 20] Not a directory: '' @ repr_str path))
          | Some Dir \<Rightarrow> Inr (f(path \<mapsto> File c))))"

text \<open>
  \<^verbatim>\<open>os.makedirs(path, exist_ok=True)\<close>: nothing to do for a directory that is there,
  \<^verbatim>\<open>FileExistsError\<close> for a file of that name, and the directory is made otherwise.
  (Ancestors that are missing would be made as well; the parent here is the working
  directory.)
\<close>

definition fs_makedirs ::
  "(string \<Rightarrow> fsnode option) \<Rightarrow> string \<Rightarrow> exception + (string \<Rightarrow> fsnode option)" where
  "fs_makedirs f path =
     (case f path of
        Some Dir \<Rightarrow> Inr f
      | Some (File _) \<Rightarrow>
          Inl (Exc FileExistsError (''[Errno 17] File exists: '' @ repr_str path))
      | None \<Rightarrow> Inr (f(path \<mapsto> Dir)))"

subsection \<open>Statements that may raise and that change the world\<close>

type_synonym 'a io = "world \<Rightarrow> (exception + 'a) \<times> world"

definition io_bind :: "'a io \<Rightarrow> ('a \<Rightarrow> 'b io) \<Rightarrow> 'b io" where
  "io_bind m k = (\<lambda>w. case m w of (Inl e, w') \<Rightarrow> (Inl e, w') | (Inr x, w') \<Rightarrow> k x w')"

text \<open>
  \<^verbatim>\<open>print(s)\<close> adds a line to the standard output. It is taken to succeed: a stream
  that cannot take the text (one whose encoding has no emoji, or a closed one) is not part
  of this world.
\<close>

definition py_print :: "string \<Rightarrow> unit io" where
  "py_print s = (\<lambda>w. (Inr (), w\<lparr>stdout := stdout w @ [s]\<rparr>))"

text \<open>A call into a library: the fault of this run if there is one, else its result.\<close>

definition lib_call :: "env \<Rightarrow> step \<Rightarrow> (exception + 'a) \<Rightarrow> 'a io" where
  "lib_call E s r = (\<lambda>w. case fault E s of Some e \<Rightarrow> (Inl e, w) | None \<Rightarrow> (r, w))"

text \<open>A call that changes the file system, or raises and leaves it as it is.\<close>

definition fs_call ::
  "env \<Rightarrow> step \<Rightarrow> ((string \<Rightarrow> fsnode option) \<Rightarrow> exception + (string \<Rightarrow> fsnode option)) \<Rightarrow> unit io" where
  "fs_call E s op =
     (\<lambda>w. case fault E s of
             Some e \<Rightarrow> (Inl e, w)
           | None \<Rightarrow> (case op (fs w) of
                        Inl e \<Rightarrow> (Inl e, w)
                      | Inr f \<Rightarrow> (Inr (), w\<lparr>fs := f\<rparr>)))"

text \<open>
  \<^verbatim>\<open>webbrowser.open(url)\<close> returns whether a browser was launched; \<^verbatim>\<open>main\<close> does not
  look at what it returns.
\<close>

definition webbrowser_open :: "env \<Rightarrow> string \<Rightarrow> bool io" where
  "webbrowser_open E url =
     (\<lambda>w. case fault E OpenBrowser of
             Some e \<Rightarrow> (Inl e, w)
           | None \<Rightarrow> (Inr (browser_found E),
                       if browser_found E then w\<lparr>browser := browser w @ [url]\<rparr> else w))"

subsection \<open>The texts\<close>

text \<open>A character outside ASCII is the bytes of its UTF-8 encoding.\<close>

definition emoji_rocket :: string where
  "emoji_rocket = [CHR 0xF0, CHR 0x9F, CHR 0x9A, CHR 0x80]"

definition emoji_chart :: string where
  "emoji_chart = [CHR 0xF0, CHR 0x9F, CHR 0x93, CHR 0x8A]"

definition emoji_disk :: string where
  "emoji_disk = [CHR 0xF0, CHR 0x9F, CHR 0x92, CHR 0xBE]"

definition emoji_globe :: string where
  "emoji_globe = [CHR 0xF0, CHR 0x9F, CHR 0x8C, CHR 0x90]"

definition emoji_check :: string where
  "emoji_check = [CHR 0xE2, CHR 0x9C, CHR 0x85]"

definition emoji_folder :: string where
  "emoji_folder = [CHR 0xF0, CHR 0x9F, CHR 0x93, CHR 0x81]"

definition emoji_cross :: string where
  "emoji_cross = [CHR 0xE2, CHR 0x9D, CHR 0x8C]"

definition emoji_package :: string where
  "emoji_package = [CHR 0xF0, CHR 0x9F, CHR 0x93, CHR 0xA6]"

text \<open>
  The three constant parts of the f-string \<^verbatim>\<open>html_content\<close>: before the time, between
  the time and the plot, and after the plot.
\<close>

definition html_head :: string where
  \<open>html_head = concat
     [''\<newline>'',
      ''        <!DOCTYPE html>\<newline>'',
      ''        <html>\<newline>'',
      ''        <head>\<newline>'',
      ''            <title>Cloud Architecture Visualization</title>\<newline>'',
      ''            <style>\<newline>'',
      ''                body {\<newline>'',
      ''                    font-family: Arial, sans-serif;\<newline>'',
      ''                    margin: 20px;\<newline>'',
      ''                    background-color: #f5f5f5;\<newline>'',
      ''                }\<newline>'',
      ''                .header {\<newline>'',
      ''                    text-align: center;\<newline>'',
      ''                    color: #333;\<newline>'',
      ''                    margin-bottom: 20px;\<newline>'',
      ''                }\<newline>'',
      ''                .info {\<newline>'',
      ''                    background-color: white;\<newline>'',
      ''                    padding: 15px;\<newline>'',
      ''                    border-radius: 5px;\<newline>'',
      ''                    margin-bottom: 20px;\<newline>'',
      ''                    box-shadow: 0 2px 5px rgba(0,0,0,0.1);\<newline>'',
      ''                }\<newline>'',
      ''                .chart-container {\<newline>'',
      ''                    background-color: white;\<newline>'',
      ''                    border-radius: 5px;\<newline>'',
      ''                    box-shadow: 0 2px 5px rgba(0,0,0,0.1);\<newline>'',
      ''                    padding: 20px;\<newline>'',
      ''                }\<newline>'',
      ''            </style>\<newline>'',
      ''        </head>\<newline>'',
      ''        <body>\<newline>'',
      ''            <div class="header">\<newline>'',
      ''                <h1>'' @ [CHR 0xE2, CHR 0x98, CHR 0x81, CHR 0xEF, CHR 0xB8, CHR 0x8F] @ '' Cloud Architecture Visualization</h1>\<newline>'',
      ''                <p>Generated on '']\<close>

definition html_mid :: string where
  \<open>html_mid = concat
     [''</p>\<newline>'',
      ''            </div>\<newline>'',
      ''            \<newline>'',
      ''            <div class="info">\<newline>'',
      ''                <h3>'' @ [CHR 0xF0, CHR 0x9F, CHR 0x93, CHR 0x8B] @ '' Architecture Components:</h3>\<newline>'',
      ''                <ul>\<newline>'',
      ''                    <li><strong>Users:</strong> External clients accessing the system</li>\<newline>'',
      ''                    <li><strong>CDN:</strong> Content Delivery Network for static assets</li>\<newline>'',
      ''                    <li><strong>Load Balancer:</strong> Distributes incoming requests</li>\<newline>'',
      ''                    <li><strong>Web Servers:</strong> Handle HTTP requests</li>\<newline>'',
      ''                    <li><strong>App Server:</strong> Business logic processing</li>\<newline>'',
      ''                    <li><strong>Database:</strong> Persistent data storage</li>\<newline>'',
      ''                    <li><strong>Cache:</strong> Redis for fast data retrieval</li>\<newline>'',
      ''                    <li><strong>Storage:</strong> File storage system</li>\<newline>'',
      ''                    <li><strong>API Gateway:</strong> API management and routing</li>\<newline>'',
      ''                </ul>\<newline>'',
      ''            </div>\<newline>'',
      ''            \<newline>'',
      ''            <div class="chart-container">\<newline>'',
      ''                '']\<close>

definition html_tail :: string where
  \<open>html_tail = concat
     [''\<newline>'',
      ''            </div>\<newline>'',
      ''        </body>\<newline>'',
      ''        </html>\<newline>'',
      ''        '']\<close>

subsection \<open>\<^verbatim>\<open>main\<close>\<close>

definition static_file :: "env \<Rightarrow> string" where
  "static_file E = os_path_join (tmpdir E) ''cloud_architecture_static.png''"

definition html_file :: "env \<Rightarrow> string" where
  "html_file E = os_path_join (os_path_join (cwd E) ''docs'') ''index.html''"

definition html_content :: "string \<Rightarrow> string \<Rightarrow> string" where
  "html_content timestamp plot = html_head @ timestamp @ html_mid @ plot @ html_tail"

text \<open>The statements inside \<^verbatim>\<open>try\<close>.\<close>

definition main_try :: "env \<Rightarrow> unit io" where
  "main_try E =
     io_bind (py_print (emoji_chart @ '' Generating static diagram...'')) (\<lambda>_.
     io_bind (lib_call E BuildStatic create_matplotlib_visualization) (\<lambda>fig_static.
     io_bind (fs_call E SaveFig (\<lambda>f. fs_create f (static_file E) (Png fig_static 300 ''tight''))) (\<lambda>_.
     io_bind (py_print (emoji_disk @ '' Static diagram saved to: '' @ static_file E)) (\<lambda>_.
     io_bind (py_print (emoji_globe @ '' Generating interactive diagram...'')) (\<lambda>_.
     io_bind (lib_call E BuildInteractive create_interactive_visualization) (\<lambda>fig_interactive.
     io_bind (fs_call E MakeDirs (\<lambda>f. fs_makedirs f (os_path_dirname (html_file E)))) (\<lambda>_.
     io_bind (lib_call E Plot (Inr (plot_div E fig_interactive))) (\<lambda>plot.
     io_bind (fs_call E OpenHtml (\<lambda>f. fs_create f (html_file E) (Html []))) (\<lambda>_.
     io_bind (fs_call E WriteHtml (\<lambda>f. Inr (f(html_file E \<mapsto> File (Html (html_content (now E) plot)))))) (\<lambda>_.
     io_bind (py_print (emoji_disk @ '' Interactive diagram saved to: '' @ html_file E)) (\<lambda>_.
     io_bind (py_print (emoji_globe @ '' Opening visualization in browser...'')) (\<lambda>_.
     io_bind (webbrowser_open E (''file://'' @ html_file E)) (\<lambda>_.
     io_bind (py_print (emoji_check @ '' Visualization created successfully!'')) (\<lambda>_.
     io_bind (py_print (emoji_folder @ '' Files created:'')) (\<lambda>_.
     io_bind (py_print (''   - Static PNG: '' @ static_file E)) (\<lambda>_.
     py_print (''   - Interactive HTML: '' @ html_file E)))))))))))))))))"

text \<open>
  The two handlers, in the order of the source. An exception that neither matches leaves
  \<^verbatim>\<open>main\<close>.
\<close>

definition except_ImportError :: "exception \<Rightarrow> unit io" where
  "except_ImportError e =
     io_bind (py_print (emoji_cross @ '' Missing required library: '' @ exc_str e)) (\<lambda>_.
     io_bind (py_print (emoji_package @ '' Please install required packages:'')) (\<lambda>_.
     py_print ''   pip install matplotlib networkx plotly''))"

definition except_Exception :: "exception \<Rightarrow> unit io" where
  "except_Exception e =
     py_print (emoji_cross @ '' Error creating visualization: '' @ exc_str e)"

definition main :: "env \<Rightarrow> unit io" where
  "main E =
     io_bind (py_print (emoji_rocket @ '' Creating Cloud Architecture Visualization...'')) (\<lambda>_.
     (\<lambda>w. case main_try E w of
             (Inr u, w') \<Rightarrow> (Inr (), w')
           | (Inl e, w') \<Rightarrow>
               if is_ImportError e then except_ImportError e w'
               else if is_Exception e then except_Exception e w'
               else (Inl e, w')))"

subsection \<open>A concrete world and environment\<close>

text \<open>
  A file system with a temporary directory and a working directory, nothing printed and
  no browser window yet; and a run in which no library call fails.
\<close>

definition world0 :: world where
  "world0 = \<lparr>fs = [''/tmp'' \<mapsto> Dir, ''/work'' \<mapsto> Dir], stdout = [], browser = []\<rparr>"

definition env0 :: env where
  "env0 =
     \<lparr>tmpdir = ''/tmp'', cwd = ''/work'', now = ''2024-05-01 12:00:00'',
      plot_div = (\<lambda>fig. ''<div>plot</div>''), browser_found = True,
      fault = (\<lambda>s. None)\<rparr>"

section \<open>Properties\<close>

lemma add_artist_artists: "ax_artists (add_artist a ax) = ax_artists ax @ [a]"
  by (simp add: add_artist_def)

lemma draw_connections_artists:
  "ax_artists (draw_connections cs ax) = ax_artists ax @ map connection_arrow cs"
  by (induction cs arbitrary: ax) (simp_all add: add_artist_artists)

lemma draw_connections_frame:
  "draw_connections cs ax = ax\<lparr>ax_artists := ax_artists ax @ map connection_arrow cs\<rparr>"
  by (induction cs arbitrary: ax) (simp_all add: add_artist_def)

lemma draw_components_frame:
  "draw_components cols cs ax = Inr ax' \<Longrightarrow>
     \<exists>rs. map (component_rect cols) cs = map Inr rs \<and>
          ax' = ax\<lparr>ax_artists := ax_artists ax @ concat (map2 (\<lambda>r c. [r, component_label c]) rs cs)\<rparr>"
proof (induction cs arbitrary: ax)
  case Nil
  then show ?case by simp
next
  case (Cons c cs)
  from Cons.prems obtain rect where r: "component_rect cols c = Inr rect"
    and d: "draw_components cols cs (add_artist (component_label c) (add_artist rect ax)) = Inr ax'"
    by (auto split: sum.splits)
  from Cons.IH [OF d] obtain rs where rs: "map (component_rect cols) cs = map Inr rs"
    and ax': "ax' = (add_artist (component_label c) (add_artist rect ax))
        \<lparr>ax_artists := ax_artists (add_artist (component_label c) (add_artist rect ax))
            @ concat (map2 (\<lambda>r c. [r, component_label c]) rs cs)\<rparr>"
    by blast
  have "map (component_rect cols) (c # cs) = map Inr (rect # rs)"
    using r rs by simp
  moreover have "ax' = ax\<lparr>ax_artists := ax_artists ax
        @ concat (map2 (\<lambda>r c. [r, component_label c]) (rect # rs) (c # cs))\<rparr>"
    using ax' by (simp add: add_artist_def)
  ultimately show ?case by blast
qed

lemma draw_components_ok:
  "\<forall>c \<in> set cs. \<exists>r. component_rect cols c = Inr r \<Longrightarrow> \<exists>ax'. draw_components cols cs ax = Inr ax'"
  by (induction cs arbitrary: ax) auto

lemma is_rectangle_component_rect: "component_rect cols c = Inr r \<Longrightarrow> is_rectangle r"
  by (cases c) (auto split: sum.splits)

lemma is_text_component_label: "is_text (component_label c)"
  by (cases c) simp

lemma not_rect_label: "\<not> is_rectangle (component_label c)" "\<not> is_arrow (component_label c)"
  by (cases c; simp)+

lemma arrow_kind: "is_arrow (connection_arrow c)" "\<not> is_rectangle (connection_arrow c)" "\<not> is_text (connection_arrow c)"
  by (cases c; simp)+

lemma filter_interleave:
  assumes "length rs = length cs" "\<forall>r \<in> set rs. is_rectangle r"
  shows "filter is_rectangle (concat (map2 (\<lambda>r c. [r, component_label c]) rs cs)) = rs"
    and "filter is_text (concat (map2 (\<lambda>r c. [r, component_label c]) rs cs)) = map component_label cs"
    and "filter is_arrow (concat (map2 (\<lambda>r c. [r, component_label c]) rs cs)) = []"
  using assms
proof (induction rs cs rule: list_induct2)
  case Nil
  { case 1 show ?case by simp next case 2 show ?case by simp next case 3 show ?case by simp }
next
  case (Cons r rs c cs)
  { case 1 then show ?case using Cons by (simp add: not_rect_label)
  next case 2 then show ?case using Cons by (cases r) (simp_all add: is_text_component_label)
  next case 3 then show ?case using Cons by (cases r) (simp_all add: not_rect_label) }
qed

lemma matplotlib_visualization_of_artists:
  assumes "matplotlib_visualization_of cols comps conns = Inr fig"
  shows "\<exists>rs. map (component_rect cols) comps = map Inr rs \<and>
           ax_artists fig = cloud_rect # cloud_text #
              concat (map2 (\<lambda>r c. [r, component_label c]) rs comps) @ map connection_arrow conns"
proof -
  let ?ax3 = "add_artist cloud_text (add_artist cloud_rect
      ((plt_subplots (14, 10))\<lparr>ax_xlim := Some (0, 10), ax_ylim := Some (0, 8),
         ax_aspect := Some ''equal''\<rparr>))"
  from assms obtain ax4 where d: "draw_components cols comps ?ax3 = Inr ax4"
    and fig: "ax_artists fig = ax_artists (draw_connections conns ax4)"
    by (auto simp: matplotlib_visualization_of_def Let_def split: sum.splits)
  from draw_components_frame [OF d] obtain rs
    where rs: "map (component_rect cols) comps = map Inr rs"
      and ax4: "ax_artists ax4 = ax_artists ?ax3 @ concat (map2 (\<lambda>r c. [r, component_label c]) rs comps)"
    by force
  have "ax_artists ?ax3 = [cloud_rect, cloud_text]"
    by (simp add: add_artist_def plt_subplots_def)
  with fig ax4 rs show ?thesis
    by (auto simp: draw_connections_artists)
qed

lemma map_Inr_rects:
  assumes "map (component_rect cols) comps = map Inr rs"
  shows "length rs = length comps" and "\<forall>r \<in> set rs. is_rectangle r"
proof -
  show len: "length rs = length comps"
    using assms by (metis length_map)
  show "\<forall>r \<in> set rs. is_rectangle r"
  proof
    fix r assume "r \<in> set rs"
    then obtain i where i: "i < length rs" "rs ! i = r" by (auto simp: in_set_conv_nth)
    with assms len have "component_rect cols (comps ! i) = Inr r"
      by (metis nth_map)
    then show "is_rectangle r" by (rule is_rectangle_component_rect)
  qed
qed

lemma cloud_kinds: "is_rectangle cloud_rect" "\<not> is_text cloud_rect" "\<not> is_arrow cloud_rect"
  "is_text cloud_text" "\<not> is_rectangle cloud_text" "\<not> is_arrow cloud_text"
  by (simp_all add: cloud_rect_def cloud_text_def)

lemma filter_arrows_id: "filter is_arrow (map connection_arrow cs) = map connection_arrow cs"
  "filter is_rectangle (map connection_arrow cs) = []"
  "filter is_text (map connection_arrow cs) = []"
  by (induction cs) (simp_all add: arrow_kind)

lemma matplotlib_visualization_of_shows:
  assumes "matplotlib_visualization_of cols comps conns = Inr fig"
  shows "\<exists>rs. map (component_rect cols) comps = map Inr rs \<and> rectangles fig = cloud_rect # rs"
    and "texts fig = cloud_text # map component_label comps"
    and "arrows fig = map connection_arrow conns"
proof -
  from matplotlib_visualization_of_artists [OF assms] obtain rs
    where rs: "map (component_rect cols) comps = map Inr rs"
      and a: "ax_artists fig = cloud_rect # cloud_text #
              concat (map2 (\<lambda>r c. [r, component_label c]) rs comps) @ map connection_arrow conns"
    by blast
  note k = map_Inr_rects [OF rs]
  have "rectangles fig = cloud_rect # rs"
    by (simp add: rectangles_def a cloud_kinds filter_arrows_id filter_interleave [OF k])
  with rs show "\<exists>rs. map (component_rect cols) comps = map Inr rs \<and> rectangles fig = cloud_rect # rs"
    by blast
  show "texts fig = cloud_text # map component_label comps"
    by (simp add: texts_def a cloud_kinds filter_arrows_id filter_interleave [OF k])
  show "arrows fig = map connection_arrow conns"
    by (simp add: arrows_def a cloud_kinds filter_arrows_id filter_interleave [OF k])
qed

lemma component_rect_colors: "\<forall>c \<in> set components. \<exists>r. component_rect colors c = Inr r"
  by (simp add: components_def colors_def dict_get_def)

lemma map_exc_ok:
  "\<forall>x \<in> set xs. \<exists>y. f x = Inr y \<Longrightarrow> \<exists>ys. map_exc f xs = Inr ys"
  by (induction xs) auto

lemma legend_elements_ok: "\<exists>handles. legend_elements cols = Inr handles"
proof -
  have "\<exists>y. (case dict_get cols key of Inl e \<Rightarrow> Inl e | Inr color \<Rightarrow> Inr (color, str_title key)) = Inr y"
    if "key \<in> set (dict_keys cols)" for key
  proof -
    from that have "map_of cols key \<noteq> None"
      by (simp add: dict_keys_def map_of_eq_None_iff)
    then obtain color where "map_of cols key = Some color"
      by blast
    then show ?thesis by (simp add: dict_get_def)
  qed
  then show ?thesis
    unfolding legend_elements_def by (intro map_exc_ok) blast
qed

lemma matplotlib_visualization_of_ok:
  assumes "\<forall>c \<in> set comps. \<exists>r. component_rect cols c = Inr r"
  shows "\<exists>fig. matplotlib_visualization_of cols comps conns = Inr fig"
proof -
  obtain ax4 where "draw_components cols comps (add_artist cloud_text (add_artist cloud_rect
      ((plt_subplots (14, 10))\<lparr>ax_xlim := Some (0, 10), ax_ylim := Some (0, 8),
         ax_aspect := Some ''equal''\<rparr>))) = Inr ax4"
    using draw_components_ok [OF assms] by blast
  moreover obtain handles where "legend_elements cols = Inr handles"
    using legend_elements_ok by blast
  ultimately show ?thesis
    by (simp add: matplotlib_visualization_of_def Let_def)
qed

lemma create_matplotlib_visualization_ok: "\<exists>fig. create_matplotlib_visualization = Inr fig"
  unfolding create_matplotlib_visualization_def
  by (rule matplotlib_visualization_of_ok [OF component_rect_colors])

text \<open>
  Claim C3. \<^verbatim>\<open>create_matplotlib_visualization\<close> returns a figure whose rectangles are the
  cloud boundary followed by one rectangle for each of the 10 entries of the component
  table, in order: at the entry's position, of its size, with a black border of width 2
  and filled with \<^verbatim>\<open>colors[color_key]\<close>; its texts are the cloud caption followed by one
  label for each entry, centred at \<open>(x + w/2, y + h/2)\<close>.
\<close>

theorem static_components_rendered:
  "\<exists>fig. create_matplotlib_visualization = Inr fig \<and>
     length components = 10 \<and>
     length (rectangles fig) = Suc (length components) \<and> hd (rectangles fig) = cloud_rect \<and>
     length (texts fig) = Suc (length components) \<and> hd (texts fig) = cloud_text \<and>
     (\<forall>i < length components. \<forall>x y w h label color_key.
        components ! i = (x, y, w, h, label, color_key) \<longrightarrow>
        (\<exists>facecolor. dict_get colors color_key = Inr facecolor \<and>
           rectangles fig ! Suc i = Rectangle (x, y) w h 2 ''black'' facecolor 0.7 None \<and>
           texts fig ! Suc i =
             Text (x + w / 2) (y + h / 2) label 9 ''center'' (Some ''center'') ''bold'' ''white''))"
proof -
  obtain fig where fig: "matplotlib_visualization_of colors components connections = Inr fig"
    using create_matplotlib_visualization_ok by (auto simp: create_matplotlib_visualization_def)
  from matplotlib_visualization_of_shows(1) [OF fig] obtain rs
    where rs: "map (component_rect colors) components = map Inr rs"
      and r: "rectangles fig = cloud_rect # rs" by blast
  have t: "texts fig = cloud_text # map component_label components"
    by (rule matplotlib_visualization_of_shows(2) [OF fig])
  have len: "length rs = length components"
    by (rule map_Inr_rects(1) [OF rs])
  have each: "\<exists>facecolor. dict_get colors color_key = Inr facecolor \<and>
           rectangles fig ! Suc i = Rectangle (x, y) w h 2 ''black'' facecolor 0.7 None \<and>
           texts fig ! Suc i =
             Text (x + w / 2) (y + h / 2) label 9 ''center'' (Some ''center'') ''bold'' ''white''"
    if i: "i < length components" and c: "components ! i = (x, y, w, h, label, color_key)"
    for i x y w h label color_key
  proof -
    have "component_rect colors (components ! i) = Inr (rs ! i)"
      using rs i len by (metis nth_map)
    then obtain facecolor where "dict_get colors color_key = Inr facecolor"
      and "rs ! i = Rectangle (x, y) w h 2 ''black'' facecolor 0.7 None"
      unfolding c by (auto split: sum.splits)
    moreover have "texts fig ! Suc i = component_label (components ! i)"
      using t i by simp
    ultimately show ?thesis using r c by simp
  qed
  have "length components = 10" by (simp add: components_def)
  with fig r t len each show ?thesis
    unfolding create_matplotlib_visualization_def by (intro exI [of _ fig]) simp
qed

text \<open>
  Claim C3 at the first entry of the table, \<^verbatim>\<open>(1, 0.2, 1.2, 0.6, 'Users', 'user')\<close>.
\<close>

theorem static_components_rendered_witness:
  "\<exists>fig. create_matplotlib_visualization = Inr fig \<and>
     rectangles fig ! 1 = Rectangle (1, 0.2) 1.2 0.6 2 ''black'' ''#4CAF50'' 0.7 None \<and>
     texts fig ! 1 = Text 1.6 0.5 ''Users'' 9 ''center'' (Some ''center'') ''bold'' ''white''"
proof -
  from static_components_rendered obtain fig where fig: "create_matplotlib_visualization = Inr fig"
    and each: "\<forall>i < length components. \<forall>x y w h label color_key.
        components ! i = (x, y, w, h, label, color_key) \<longrightarrow>
        (\<exists>facecolor. dict_get colors color_key = Inr facecolor \<and>
           rectangles fig ! Suc i = Rectangle (x, y) w h 2 ''black'' facecolor 0.7 None \<and>
           texts fig ! Suc i =
             Text (x + w / 2) (y + h / 2) label 9 ''center'' (Some ''center'') ''bold'' ''white'')"
    by blast
  have c0: "0 < length components" "components ! 0 = (1, 0.2, 1.2, 0.6, ''Users'', ''user'')"
    by (simp_all add: components_def)
  from each [rule_format, OF c0] obtain facecolor
    where "dict_get colors ''user'' = Inr facecolor"
      and "rectangles fig ! Suc 0 = Rectangle (1, 0.2) 1.2 0.6 2 ''black'' facecolor 0.7 None"
      and "texts fig ! Suc 0 =
             Text (1 + 1.2 / 2) (0.2 + 0.6 / 2) ''Users'' 9 ''center'' (Some ''center'') ''bold'' ''white''"
    by blast
  moreover have "dict_get colors ''user'' = Inr ''#4CAF50''"
    by (simp add: dict_get_def colors_def)
  ultimately show ?thesis using fig by (intro exI [of _ fig]) simp
qed

text \<open>
  Claim C4. The arrows of the figure are one for each of the 12 entries of the connection
  table, in order, from \<open>(start_x, start_y)\<close> to \<open>(end_x, end_y)\<close> as written in the entry;
  and whatever colour and component tables the function body is run with, the arrows are
  the same: no rectangle enters them.
\<close>

theorem static_connections_rendered:
  "\<exists>fig. create_matplotlib_visualization = Inr fig \<and>
     length connections = 12 \<and>
     length (arrows fig) = length connections \<and>
     (\<forall>i < length connections. \<forall>start_x start_y end_x end_y.
        connections ! i = (start_x, start_y, end_x, end_y) \<longrightarrow>
        arrows fig ! i = Annotation '''' (end_x, end_y) (start_x, start_y) ''->'' 1.5 ''darkgray'') \<and>
     (\<forall>cols comps fig'. matplotlib_visualization_of cols comps connections = Inr fig' \<longrightarrow>
        arrows fig' = arrows fig)"
proof -
  obtain fig where fig: "matplotlib_visualization_of colors components connections = Inr fig"
    using create_matplotlib_visualization_ok by (auto simp: create_matplotlib_visualization_def)
  have a: "arrows fig = map connection_arrow connections"
    by (rule matplotlib_visualization_of_shows(3) [OF fig])
  have "length connections = 12" by (simp add: connections_def)
  moreover have "\<forall>i < length connections. \<forall>start_x start_y end_x end_y.
        connections ! i = (start_x, start_y, end_x, end_y) \<longrightarrow>
        arrows fig ! i = Annotation '''' (end_x, end_y) (start_x, start_y) ''->'' 1.5 ''darkgray''"
    using a by simp
  moreover have "\<forall>cols comps fig'. matplotlib_visualization_of cols comps connections = Inr fig' \<longrightarrow>
        arrows fig' = arrows fig"
    using a matplotlib_visualization_of_shows(3) by simp
  ultimately show ?thesis using fig a
    unfolding create_matplotlib_visualization_def by (intro exI [of _ fig]) simp
qed

lemma build_graph_value:
  "build_graph nodes edges =
     \<lparr>g_node = nodes,
      g_succ =
        [(''users'', [''cdn'', ''load_balancer'', ''api_gateway'']),
         (''cdn'', [''load_balancer'']),
         (''load_balancer'', [''web_server_1'', ''web_server_2'']),
         (''web_server_1'', [''app_server'']),
         (''web_server_2'', [''app_server'']),
         (''api_gateway'', [''storage'', ''app_server'']),
         (''app_server'', [''database'', ''cache'', ''storage'']),
         (''database'', []),
         (''cache'', []),
         (''storage'', [])]\<rparr>"
  by (simp add: build_graph_def add_node_def nx_DiGraph_def dict_keys_def add_edge_def
      add_missing_node_def Let_def attrs_update_def empty_attrs_def nodes_def edges_def)

lemma node_text_values:
  "map node_text (dict_keys nodes) =
     [''Users'', ''Cdn'', ''Load Balancer'', ''Web Server 1'', ''Web Server 2'',
      ''Api Gateway'', ''App Server'', ''Database'', ''Cache'', ''Storage'']"
  by (simp add: nodes_def dict_keys_def node_text_def str_title_def str_replace_def
      str_islower_def str_isupper_def str_upper_def str_lower_def
      ascii_lowercase_def ascii_uppercase_def)

lemma create_interactive_visualization_value:
  "create_interactive_visualization =
     Inr \<lparr>fig_edge_trace =
            \<lparr>es_x = [Some 1, Some 1, None, Some 1, Some 2, None, Some 1, Some 4, None,
                     Some 1, Some 2, None, Some 2, Some 4, None, Some 2, Some 4, None,
                     Some 4, Some 6, None, Some 4, Some 6, None, Some 4, Some 6, None,
                     Some 4, Some 6, None, Some 6, Some 8, None, Some 6, Some 8, None,
                     Some 6, Some 6, None],
             es_y = [Some 1, Some 3, None, Some 1, Some 5, None, Some 1, Some 2, None,
                     Some 3, Some 5, None, Some 5, Some 6, None, Some 5, Some 4, None,
                     Some 6, Some 5, None, Some 4, Some 5, None, Some 2, Some 2, None,
                     Some 2, Some 5, None, Some 5, Some 6, None, Some 5, Some 4, None,
                     Some 5, Some 2, None],
             es_line_width = 2, es_line_color = ''#888'',
             es_hoverinfo = ''none'', es_mode = ''lines''\<rparr>,
          fig_node_trace =
            \<lparr>ns_x = [1, 1, 2, 4, 4, 4, 6, 8, 8, 6],
             ns_y = [1, 3, 5, 6, 4, 2, 5, 6, 4, 2],
             ns_mode = ''markers+text'', ns_hoverinfo = ''text'',
             ns_text = [''Users'', ''Cdn'', ''Load Balancer'', ''Web Server 1'',
                        ''Web Server 2'', ''Api Gateway'', ''App Server'',
                        ''Database'', ''Cache'', ''Storage''],
             ns_textposition = ''middle center'', ns_textfont_size = 10,
             ns_textfont_color = ''white'',
             ns_marker_size = [30, 25, 25, 25, 25, 25, 30, 30, 25, 25],
             ns_marker_color = [''#4CAF50'', ''#607D8B'', ''#607D8B'', ''#2196F3'',
                                ''#2196F3'', ''#607D8B'', ''#FF9800'', ''#9C27B0'',
                                ''#F44336'', ''#795548''],
             ns_marker_line_width = 2, ns_marker_line_color = ''black''\<rparr>,
          fig_layout = figure_layout\<rparr>"
proof -
  let ?G = "\<lparr>g_node = nodes,
      g_succ =
        [(''users'', [''cdn'', ''load_balancer'', ''api_gateway'']),
         (''cdn'', [''load_balancer'']),
         (''load_balancer'', [''web_server_1'', ''web_server_2'']),
         (''web_server_1'', [''app_server'']),
         (''web_server_2'', [''app_server'']),
         (''api_gateway'', [''storage'', ''app_server'']),
         (''app_server'', [''database'', ''cache'', ''storage'']),
         (''database'', []),
         (''cache'', []),
         (''storage'', [])]\<rparr>"
  have n: "digraph_nodes ?G = dict_keys nodes"
    by (simp add: digraph_nodes_def)
  have p: "get_node_attributes_pos ?G =
      [(''users'', (1, 1)), (''cdn'', (1, 3)), (''load_balancer'', (2, 5)),
       (''web_server_1'', (4, 6)), (''web_server_2'', (4, 4)), (''api_gateway'', (4, 2)),
       (''app_server'', (6, 5)), (''database'', (8, 6)), (''cache'', (8, 4)),
       (''storage'', (6, 2))]"
    by (simp add: get_node_attributes_pos_def nodes_def map_filter_simps)
  have c: "map_exc (node_color nodes) (dict_keys nodes) =
      Inr [''#4CAF50'', ''#607D8B'', ''#607D8B'', ''#2196F3'', ''#2196F3'', ''#607D8B'',
           ''#FF9800'', ''#9C27B0'', ''#F44336'', ''#795548'']"
    by (simp add: nodes_def dict_keys_def node_color_def dict_get_def)
  have s: "map_exc (node_size nodes) (dict_keys nodes) =
      Inr [30, 25, 25, 25, 25, 25, 30, 30, 25, 25]"
    by (simp add: nodes_def dict_keys_def node_size_def dict_get_def)
  have e: "edge_loop (get_node_attributes_pos ?G) (digraph_edges ?G) ([], []) =
      Inr ([Some 1, Some 1, None, Some 1, Some 2, None, Some 1, Some 4, None,
                     Some 1, Some 2, None, Some 2, Some 4, None, Some 2, Some 4, None,
                     Some 4, Some 6, None, Some 4, Some 6, None, Some 4, Some 6, None,
                     Some 4, Some 6, None, Some 6, Some 8, None, Some 6, Some 8, None,
                     Some 6, Some 6, None],
           [Some 1, Some 3, None, Some 1, Some 5, None, Some 1, Some 2, None,
                     Some 3, Some 5, None, Some 5, Some 6, None, Some 5, Some 4, None,
                     Some 6, Some 5, None, Some 4, Some 5, None, Some 2, Some 2, None,
                     Some 2, Some 5, None, Some 5, Some 6, None, Some 5, Some 4, None,
                     Some 5, Some 2, None])"
    unfolding p by (simp add: digraph_edges_def dict_get_def)
  have x: "map_exc (pos_x (get_node_attributes_pos ?G)) (dict_keys nodes) =
      Inr [1, 1, 2, 4, 4, 4, 6, 8, 8, 6]"
    unfolding p by (simp add: nodes_def dict_keys_def pos_x_def dict_get_def)
  have y: "map_exc (pos_y (get_node_attributes_pos ?G)) (dict_keys nodes) =
      Inr [1, 3, 5, 6, 4, 2, 5, 6, 4, 2]"
    unfolding p by (simp add: nodes_def dict_keys_def pos_y_def dict_get_def)
  show ?thesis
    unfolding create_interactive_visualization_def interactive_visualization_of_def Let_def
      build_graph_value
    unfolding n c s e x y node_text_values
    by simp
qed

lemma add_missing_node_nodes:
  assumes "dict_keys (g_node G) = dict_keys (g_succ G)"
  shows "dict_keys (g_node (add_missing_node G n)) = dict_keys (g_succ (add_missing_node G n))"
    and "digraph_nodes (add_missing_node G n) =
           (if n \<in> set (digraph_nodes G) then digraph_nodes G else digraph_nodes G @ [n])"
  using assms by (simp_all add: add_missing_node_def digraph_nodes_def dict_keys_def)

lemma dict_keys_map_value:
  "dict_keys (map (\<lambda>(k, v). if P k v then (k, f k v) else (k, v)) d) = dict_keys d"
  by (induction d) (auto simp: dict_keys_def)

lemma add_edge_nodes:
  assumes "dict_keys (g_node G) = dict_keys (g_succ G)"
  shows "dict_keys (g_node (add_edge G e)) = dict_keys (g_succ (add_edge G e))"
    and "digraph_nodes (add_edge G e) =
           digraph_nodes (add_missing_node (add_missing_node G (fst e)) (snd e))"
proof -
  let ?G2 = "add_missing_node (add_missing_node G (fst e)) (snd e)"
  have inv2: "dict_keys (g_node ?G2) = dict_keys (g_succ ?G2)"
    by (intro add_missing_node_nodes(1) assms)
  have succ: "dict_keys (g_succ (add_edge G e)) = dict_keys (g_succ ?G2)"
    unfolding add_edge_def Let_def
    using dict_keys_map_value [of "\<lambda>k nbrs. k = fst e \<and> snd e \<notin> set nbrs"
        "\<lambda>k nbrs. nbrs @ [snd e]" "g_succ ?G2"]
    by simp
  have node: "g_node (add_edge G e) = g_node ?G2"
    by (simp add: add_edge_def Let_def)
  show "dict_keys (g_node (add_edge G e)) = dict_keys (g_succ (add_edge G e))"
    using inv2 succ node by simp
  show "digraph_nodes (add_edge G e) = digraph_nodes ?G2"
    using node by (simp add: digraph_nodes_def)
qed

lemma add_edge_nodes_prefix:
  assumes "dict_keys (g_node G) = dict_keys (g_succ G)"
  shows "\<exists>ws. digraph_nodes (add_edge G e) = digraph_nodes G @ ws"
  using add_edge_nodes(2) [OF assms, of e] add_missing_node_nodes [OF assms, of "fst e"]
    add_missing_node_nodes(2) [OF add_missing_node_nodes(1) [OF assms, of "fst e"], of "snd e"]
  by (auto split: if_splits)

lemma add_edges_from_nodes_prefix:
  assumes "dict_keys (g_node G) = dict_keys (g_succ G)"
  shows "\<exists>ws. digraph_nodes (add_edges_from G es) = digraph_nodes G @ ws"
  using assms
proof (induction es arbitrary: G)
  case Nil
  then show ?case by simp
next
  case (Cons e es)
  from add_edge_nodes_prefix [OF Cons.prems, of e]
  obtain ws where ws: "digraph_nodes (add_edge G e) = digraph_nodes G @ ws" by blast
  from Cons.IH [OF add_edge_nodes(1) [OF Cons.prems]]
  obtain ws' where "digraph_nodes (add_edges_from (add_edge G e) es) = digraph_nodes (add_edge G e) @ ws'"
    by blast
  with ws show ?case by simp
qed

lemma add_edges_from_first_unknown:
  assumes "dict_keys (g_node G) = dict_keys (g_succ G)"
    and "find (\<lambda>n. n \<notin> set (digraph_nodes G)) (concat (map (\<lambda>(u, v). [u, v]) es)) = Some n"
  shows "\<exists>ws. digraph_nodes (add_edges_from G es) = digraph_nodes G @ n # ws"
  using assms
proof (induction es arbitrary: G)
  case Nil
  then show ?case by simp
next
  case (Cons e es)
  obtain u v where e: "e = (u, v)" by (cases e)
  let ?G' = "add_edge G e"
  have inv': "dict_keys (g_node ?G') = dict_keys (g_succ ?G')"
    by (rule add_edge_nodes(1) [OF Cons.prems(1)])
  obtain ws' where rest: "digraph_nodes (add_edges_from ?G' es) = digraph_nodes ?G' @ ws'"
    using add_edges_from_nodes_prefix [OF inv'] by blast
  note step = add_edge_nodes(2) [OF Cons.prems(1), of e]
    add_missing_node_nodes [OF Cons.prems(1), of u]
    add_missing_node_nodes(2) [OF add_missing_node_nodes(1) [OF Cons.prems(1), of u], of v]
  show ?case
  proof (cases "u \<in> set (digraph_nodes G)")
    case False
    with Cons.prems(2) e have "n = u" by simp
    moreover have "\<exists>zs. digraph_nodes ?G' = digraph_nodes G @ u # zs"
      using step False e by (auto split: if_splits)
    ultimately show ?thesis using rest by auto
  next
    case u: True
    show ?thesis
    proof (cases "v \<in> set (digraph_nodes G)")
      case False
      with Cons.prems(2) e u have "n = v" by simp
      moreover have "digraph_nodes ?G' = digraph_nodes G @ [v]"
        using step False u e by (auto split: if_splits)
      ultimately show ?thesis using rest by auto
    next
      case True
      with u step e have same: "digraph_nodes ?G' = digraph_nodes G" by simp
      with Cons.prems(2) e u True
      have "find (\<lambda>n. n \<notin> set (digraph_nodes ?G')) (concat (map (\<lambda>(u, v). [u, v]) es)) = Some n"
        by simp
      from Cons.IH [OF inv' this] same show ?thesis by simp
    qed
  qed
qed

lemma map_exc_append:
  "map_exc f (xs @ ys) =
     (case map_exc f xs of
        Inl e \<Rightarrow> Inl e
      | Inr a \<Rightarrow> (case map_exc f ys of Inl e \<Rightarrow> Inl e | Inr b \<Rightarrow> Inr (a @ b)))"
  by (induction xs) (auto split: sum.splits)

lemma node_color_unknown:
  "n \<notin> set (dict_keys tab) \<Longrightarrow> node_color tab n = Inl (Exc KeyError (repr_str n))"
  by (simp add: node_color_def dict_get_def dict_keys_def map_of_eq_None_iff [THEN iffD2])

lemma nodes_graph:
  "fold (\<lambda>(node, attrs) G. add_node G node attrs) nodes nx_DiGraph =
     \<lparr>g_node = nodes, g_succ = map (\<lambda>n. (n, [])) (dict_keys nodes)\<rparr>"
  by (simp add: add_node_def nx_DiGraph_def dict_keys_def attrs_update_def empty_attrs_def nodes_def)

lemma node_colors_known: "\<exists>cs. map_exc (node_color nodes) (dict_keys nodes) = Inr cs"
  by (simp add: nodes_def dict_keys_def node_color_def dict_get_def)

lemma interactive_first_unknown:
  assumes "find (\<lambda>n. n \<notin> set (dict_keys nodes)) (concat (map (\<lambda>(u, v). [u, v]) es)) = Some n"
  shows "interactive_visualization_of nodes es = Inl (Exc KeyError (repr_str n))"
    and "n \<in> set (digraph_nodes (build_graph nodes es))"
proof -
  let ?G0 = "\<lparr>g_node = nodes, g_succ = map (\<lambda>n. (n, [])) (dict_keys nodes)\<rparr>"
  have inv: "dict_keys (g_node ?G0) = dict_keys (g_succ ?G0)"
    by (simp add: dict_keys_def comp_def)
  have n0: "digraph_nodes ?G0 = dict_keys nodes"
    by (simp add: digraph_nodes_def)
  from add_edges_from_first_unknown [OF inv, of es n] assms n0
  obtain ws where ws: "digraph_nodes (build_graph nodes es) = dict_keys nodes @ n # ws"
    unfolding build_graph_def nodes_graph by auto
  then show "n \<in> set (digraph_nodes (build_graph nodes es))" by simp
  have "n \<notin> set (dict_keys nodes)"
    using assms by (auto dest: find_Some_iff [THEN iffD1])
  then have "map_exc (node_color nodes) (n # ws) = Inl (Exc KeyError (repr_str n))"
    by (simp add: node_color_unknown)
  with node_colors_known
  have "map_exc (node_color nodes) (digraph_nodes (build_graph nodes es)) =
      Inl (Exc KeyError (repr_str n))"
    unfolding ws by (auto simp: map_exc_append)
  then show "interactive_visualization_of nodes es = Inl (Exc KeyError (repr_str n))"
    by (simp add: interactive_visualization_of_def Let_def)
qed

text \<open>
  Claim C4 at the first connection, and with no components at all.
\<close>

theorem static_connections_rendered_witness:
  "\<exists>fig. create_matplotlib_visualization = Inr fig \<and>
     arrows fig ! 0 = Annotation '''' (1.7, 5.5) (1.6, 0.8) ''->'' 1.5 ''darkgray'' \<and>
     (\<forall>fig'. matplotlib_visualization_of colors [] connections = Inr fig' \<longrightarrow>
        arrows fig' = arrows fig) \<and>
     (\<exists>fig'. matplotlib_visualization_of colors [] connections = Inr fig')"
proof -
  from static_connections_rendered obtain fig
    where fig: "create_matplotlib_visualization = Inr fig"
      and each: "\<forall>i < length connections. \<forall>start_x start_y end_x end_y.
        connections ! i = (start_x, start_y, end_x, end_y) \<longrightarrow>
        arrows fig ! i = Annotation '''' (end_x, end_y) (start_x, start_y) ''->'' 1.5 ''darkgray''"
      and indep: "\<forall>cols comps fig'. matplotlib_visualization_of cols comps connections = Inr fig' \<longrightarrow>
        arrows fig' = arrows fig"
    by blast
  have c0: "0 < length connections" "connections ! 0 = (1.6, 0.8, 1.7, 5.5)"
    by (simp_all add: connections_def)
  have "arrows fig ! 0 = Annotation '''' (1.7, 5.5) (1.6, 0.8) ''->'' 1.5 ''darkgray''"
    using each [rule_format, OF c0] .
  moreover have "\<exists>fig'. matplotlib_visualization_of colors [] connections = Inr fig'"
    by (rule matplotlib_visualization_of_ok) simp
  ultimately show ?thesis using fig indep by blast
qed

text \<open>
  Claim C1, as amended. Both endpoints of each of the 13 edges are among the 10 keys of
  the node table. For an edge list in which some endpoint is not a key, the builder does
  not return a figure: networkx adds the unknown identifier as a node and the lookup
  \<^verbatim>\<open>nodes[node]\<close> for the node colours raises \<^verbatim>\<open>KeyError\<close> for the first such identifier.
\<close>

theorem interactive_edge_endpoints:
  "(\<forall>e \<in> set edges. fst e \<in> set (dict_keys nodes) \<and> snd e \<in> set (dict_keys nodes)) \<and>
   length edges = 13 \<and> length (dict_keys nodes) = 10 \<and>
   (\<forall>es n. find (\<lambda>n. n \<notin> set (dict_keys nodes)) (concat (map (\<lambda>(u, v). [u, v]) es)) = Some n \<longrightarrow>
      interactive_visualization_of nodes es = Inl (Exc KeyError (repr_str n)) \<and>
      n \<in> set (digraph_nodes (build_graph nodes es)))"
proof -
  have "\<forall>e \<in> set edges. fst e \<in> set (dict_keys nodes) \<and> snd e \<in> set (dict_keys nodes)"
    by (simp add: edges_def nodes_def dict_keys_def)
  moreover have "length edges = 13" "length (dict_keys nodes) = 10"
    by (simp_all add: edges_def nodes_def dict_keys_def)
  ultimately show ?thesis
    using interactive_first_unknown by blast
qed

text \<open>
  Claim C1 (amended) at the edge \<^verbatim>\<open>('users', 'cdn')\<close> and at the edge list extended by
  \<^verbatim>\<open>('users', 'ghost')\<close>.
\<close>

theorem interactive_edge_endpoints_witness:
  "fst (''users'', ''cdn'') \<in> set (dict_keys nodes) \<and> snd (''users'', ''cdn'') \<in> set (dict_keys nodes) \<and>
   interactive_visualization_of nodes (edges @ [(''users'', ''ghost'')]) =
     Inl (Exc KeyError (repr_str ''ghost'')) \<and>
   ''ghost'' \<in> set (digraph_nodes (build_graph nodes (edges @ [(''users'', ''ghost'')])))"
proof -
  have e: "(''users'', ''cdn'') \<in> set edges"
    by (simp add: edges_def)
  have f: "find (\<lambda>n. n \<notin> set (dict_keys nodes))
      (concat (map (\<lambda>(u, v). [u, v]) (edges @ [(''users'', ''ghost'')]))) = Some ''ghost''"
    by (simp add: edges_def nodes_def dict_keys_def)
  from interactive_edge_endpoints e f show ?thesis by blast
qed

text \<open>
  Claim C1 as stated fails: with the edge \<^verbatim>\<open>('users', 'ghost')\<close> added, the graph is built
  with the edge and with \<^verbatim>\<open>'ghost'\<close> as its eleventh node, and what is raised is the
  \<^verbatim>\<open>KeyError\<close> of the dict lookup \<^verbatim>\<open>nodes['ghost']\<close>, not an error of a validation.
\<close>

theorem interactive_unknown_endpoint_no_validation:
  "(''users'', ''ghost'') \<in> set (digraph_edges (build_graph nodes (edges @ [(''users'', ''ghost'')]))) \<and>
   digraph_nodes (build_graph nodes (edges @ [(''users'', ''ghost'')])) = dict_keys nodes @ [''ghost''] \<and>
   dict_get nodes ''ghost'' = Inl (Exc KeyError (repr_str ''ghost'')) \<and>
   interactive_visualization_of nodes (edges @ [(''users'', ''ghost'')]) =
     Inl (Exc KeyError [CHR 0x27, CHR ''g'', CHR ''h'', CHR ''o'', CHR ''s'', CHR ''t'', CHR 0x27])"
proof -
  have g: "build_graph nodes (edges @ [(''users'', ''ghost'')]) =
     \<lparr>g_node = nodes @ [(''ghost'', empty_attrs)],
      g_succ =
        [(''users'', [''cdn'', ''load_balancer'', ''api_gateway'', ''ghost'']),
         (''cdn'', [''load_balancer'']),
         (''load_balancer'', [''web_server_1'', ''web_server_2'']),
         (''web_server_1'', [''app_server'']),
         (''web_server_2'', [''app_server'']),
         (''api_gateway'', [''storage'', ''app_server'']),
         (''app_server'', [''database'', ''cache'', ''storage'']),
         (''database'', []),
         (''cache'', []),
         (''storage'', []),
         (''ghost'', [])]\<rparr>"
    by (simp add: build_graph_def add_node_def nx_DiGraph_def dict_keys_def add_edge_def
      add_missing_node_def Let_def attrs_update_def nodes_def edges_def)
  have n: "digraph_nodes (build_graph nodes (edges @ [(''users'', ''ghost'')])) = dict_keys nodes @ [''ghost'']"
    unfolding g by (simp add: digraph_nodes_def dict_keys_def)
  have e: "(''users'', ''ghost'') \<in> set (digraph_edges (build_graph nodes (edges @ [(''users'', ''ghost'')])))"
    unfolding g by (simp add: digraph_edges_def)
  have d: "dict_get nodes ''ghost'' = Inl (Exc KeyError (repr_str ''ghost''))"
    by (simp add: dict_get_def nodes_def)
  have c: "map_exc (node_color nodes) (dict_keys nodes @ [''ghost'']) =
      Inl (Exc KeyError (repr_str ''ghost''))"
    by (simp add: nodes_def dict_keys_def node_color_def dict_get_def)
  have "interactive_visualization_of nodes (edges @ [(''users'', ''ghost'')]) =
     Inl (Exc KeyError (repr_str ''ghost''))"
    unfolding interactive_visualization_of_def Let_def n c by simp
  with n e d show ?thesis by (simp add: repr_str_def)
qed

text \<open>
  Claim C2. The nodes of the graph are the 10 keys of the node table, each once; its edges
  are, as a set, the 13 pairs of the edge list, each once. The node trace has one label
  and one point for each key, all different; the edge trace has one line segment for each
  edge of the graph, between the positions of its endpoints, all different.
\<close>

theorem interactive_nodes_edges_rendered:
  "\<exists>fig. create_interactive_visualization = Inr fig \<and>
     digraph_nodes (build_graph nodes edges) = dict_keys nodes \<and>
     distinct (dict_keys nodes) \<and> length (dict_keys nodes) = 10 \<and>
     set (digraph_edges (build_graph nodes edges)) = set edges \<and>
     distinct (digraph_edges (build_graph nodes edges)) \<and> distinct edges \<and>
     length (digraph_edges (build_graph nodes edges)) = 13 \<and> length edges = 13 \<and>
     ns_text (fig_node_trace fig) = map node_text (dict_keys nodes) \<and>
     distinct (ns_text (fig_node_trace fig)) \<and>
     zip (ns_x (fig_node_trace fig)) (ns_y (fig_node_trace fig)) =
       map snd (get_node_attributes_pos (build_graph nodes edges)) \<and>
     length (ns_x (fig_node_trace fig)) = 10 \<and> length (ns_y (fig_node_trace fig)) = 10 \<and>
     distinct (zip (ns_x (fig_node_trace fig)) (ns_y (fig_node_trace fig))) \<and>
     map (\<lambda>(p, q). (Inr p, Inr q))
         (segments (es_x (fig_edge_trace fig)) (es_y (fig_edge_trace fig))) =
       map (\<lambda>(u, v). (dict_get (get_node_attributes_pos (build_graph nodes edges)) u,
                       dict_get (get_node_attributes_pos (build_graph nodes edges)) v))
           (digraph_edges (build_graph nodes edges)) \<and>
     distinct (segments (es_x (fig_edge_trace fig)) (es_y (fig_edge_trace fig))) \<and>
     length (segments (es_x (fig_edge_trace fig)) (es_y (fig_edge_trace fig))) = 13 \<and>
     length (es_x (fig_edge_trace fig)) = 3 * 13 \<and> length (es_y (fig_edge_trace fig)) = 3 * 13"
proof -
  let ?G = "build_graph nodes edges"
  have keys: "dict_keys nodes =
      [''users'', ''cdn'', ''load_balancer'', ''web_server_1'', ''web_server_2'',
       ''api_gateway'', ''app_server'', ''database'', ''cache'', ''storage'']"
    by (simp add: nodes_def dict_keys_def)
  have n: "digraph_nodes ?G = dict_keys nodes"
    unfolding build_graph_value by (simp add: digraph_nodes_def)
  have e: "digraph_edges ?G =
      [(''users'', ''cdn''), (''users'', ''load_balancer''), (''users'', ''api_gateway''),
       (''cdn'', ''load_balancer''),
       (''load_balancer'', ''web_server_1''), (''load_balancer'', ''web_server_2''),
       (''web_server_1'', ''app_server''), (''web_server_2'', ''app_server''),
       (''api_gateway'', ''storage''), (''api_gateway'', ''app_server''),
       (''app_server'', ''database''), (''app_server'', ''cache''), (''app_server'', ''storage'')]"
    unfolding build_graph_value by (simp add: digraph_edges_def)
  have p: "get_node_attributes_pos ?G =
      [(''users'', (1, 1)), (''cdn'', (1, 3)), (''load_balancer'', (2, 5)),
       (''web_server_1'', (4, 6)), (''web_server_2'', (4, 4)), (''api_gateway'', (4, 2)),
       (''app_server'', (6, 5)), (''database'', (8, 6)), (''cache'', (8, 4)),
       (''storage'', (6, 2))]"
    unfolding build_graph_value
    by (simp add: get_node_attributes_pos_def nodes_def map_filter_simps)
  have dk: "distinct (dict_keys nodes)" "length (dict_keys nodes) = 10"
    unfolding keys by simp_all
  have se: "set (digraph_edges ?G) = set edges"
    unfolding e by (auto simp: edges_def)
  have de: "distinct (digraph_edges ?G)" "length (digraph_edges ?G) = 13"
    unfolding e by simp_all
  have ed: "distinct edges" "length edges = 13"
    by (simp_all add: edges_def)
  have sg: "map (\<lambda>(p, q). (Inr p, Inr q))
         (segments [Some 1, Some 1, None, Some 1, Some 2, None, Some 1, Some 4, None,
                     Some 1, Some 2, None, Some 2, Some 4, None, Some 2, Some 4, None,
                     Some 4, Some 6, None, Some 4, Some 6, None, Some 4, Some 6, None,
                     Some 4, Some 6, None, Some 6, Some 8, None, Some 6, Some 8, None,
                     Some 6, Some 6, None]
                   [Some 1, Some 3, None, Some 1, Some 5, None, Some 1, Some 2, None,
                     Some 3, Some 5, None, Some 5, Some 6, None, Some 5, Some 4, None,
                     Some 6, Some 5, None, Some 4, Some 5, None, Some 2, Some 2, None,
                     Some 2, Some 5, None, Some 5, Some 6, None, Some 5, Some 4, None,
                     Some 5, Some 2, None]) =
       map (\<lambda>(u, v). (dict_get (get_node_attributes_pos ?G) u,
                       dict_get (get_node_attributes_pos ?G) v))
           (digraph_edges ?G)"
    unfolding p e by (simp add: dict_get_def)
  show ?thesis
    unfolding create_interactive_visualization_value
    apply (intro exI conjI refl)
    using n dk se de ed sg
    by (simp_all add: node_text_values [symmetric] p)
     (simp_all add: node_text_values)
qed

lemma interactive_node_trace:
  "\<exists>fig. create_interactive_visualization = Inr fig \<and>
     ns_x (fig_node_trace fig) = [1, 1, 2, 4, 4, 4, 6, 8, 8, 6] \<and>
     ns_y (fig_node_trace fig) = [1, 3, 5, 6, 4, 2, 5, 6, 4, 2] \<and>
     ns_marker_color (fig_node_trace fig) =
       [''#4CAF50'', ''#607D8B'', ''#607D8B'', ''#2196F3'', ''#2196F3'',
        ''#607D8B'', ''#FF9800'', ''#9C27B0'', ''#F44336'', ''#795548''] \<and>
     ns_marker_size (fig_node_trace fig) = [30, 25, 25, 25, 25, 25, 30, 30, 25, 25] \<and>
     ns_text (fig_node_trace fig) =
       [''Users'', ''Cdn'', ''Load Balancer'', ''Web Server 1'', ''Web Server 2'',
        ''Api Gateway'', ''App Server'', ''Database'', ''Cache'', ''Storage'']"
  by (simp add: create_interactive_visualization_value)

text \<open>
  Claim C10. The five lists of the node trace have one entry for each entry of the node
  table, and at every index the x and y coordinate, the colour and the size are those of
  the table entry at that index, and the label is its identifier with \<^verbatim>\<open>_\<close> replaced
  by a space, in title case.
\<close>

theorem node_trace_aligned:
  "\<exists>fig. create_interactive_visualization = Inr fig \<and>
     digraph_nodes (build_graph nodes edges) = dict_keys nodes \<and>
     length (ns_x (fig_node_trace fig)) = length nodes \<and>
     length (ns_y (fig_node_trace fig)) = length nodes \<and>
     length (ns_marker_color (fig_node_trace fig)) = length nodes \<and>
     length (ns_marker_size (fig_node_trace fig)) = length nodes \<and>
     length (ns_text (fig_node_trace fig)) = length nodes \<and>
     (\<forall>i < length nodes. \<forall>node attrs. nodes ! i = (node, attrs) \<longrightarrow>
        digraph_nodes (build_graph nodes edges) ! i = node \<and>
        attr_pos attrs = Some (ns_x (fig_node_trace fig) ! i, ns_y (fig_node_trace fig) ! i) \<and>
        attr_color attrs = Some (ns_marker_color (fig_node_trace fig) ! i) \<and>
        attr_size attrs = Some (ns_marker_size (fig_node_trace fig) ! i) \<and>
        ns_text (fig_node_trace fig) ! i = str_title (str_replace (CHR ''_'') '' '' node))"
proof -
  let ?G = "build_graph nodes edges"
  have n: "digraph_nodes ?G = dict_keys nodes"
    unfolding build_graph_value by (simp add: digraph_nodes_def)
  have len: "length nodes = 10"
    by (simp add: nodes_def)
  have labels: "node_text ''users'' = ''Users''" "node_text ''cdn'' = ''Cdn''"
    "node_text ''load_balancer'' = ''Load Balancer''"
    "node_text ''web_server_1'' = ''Web Server 1''"
    "node_text ''web_server_2'' = ''Web Server 2''"
    "node_text ''api_gateway'' = ''Api Gateway''"
    "node_text ''app_server'' = ''App Server''"
    "node_text ''database'' = ''Database''" "node_text ''cache'' = ''Cache''"
    "node_text ''storage'' = ''Storage''"
    using node_text_values by (simp_all add: nodes_def dict_keys_def)
  have each: "digraph_nodes ?G ! i = node \<and>
        attr_pos attrs = Some ([1, 1, 2, 4, 4, 4, 6, 8, 8, 6] ! i, [1, 3, 5, 6, 4, 2, 5, 6, 4, 2] ! i) \<and>
        attr_color attrs = Some ([''#4CAF50'', ''#607D8B'', ''#607D8B'', ''#2196F3'', ''#2196F3'',
           ''#607D8B'', ''#FF9800'', ''#9C27B0'', ''#F44336'', ''#795548''] ! i) \<and>
        attr_size attrs = Some ([30, 25, 25, 25, 25, 25, 30, 30, 25, 25] ! i) \<and>
        [''Users'', ''Cdn'', ''Load Balancer'', ''Web Server 1'', ''Web Server 2'',
         ''Api Gateway'', ''App Server'', ''Database'', ''Cache'', ''Storage''] ! i =
          node_text node"
    if i: "i < length nodes" and ni: "nodes ! i = (node, attrs)" for i node attrs
  proof -
    from i len have "i = 0 \<or> i = 1 \<or> i = 2 \<or> i = 3 \<or> i = 4 \<or> i = 5 \<or> i = 6 \<or> i = 7 \<or> i = 8 \<or> i = 9"
      by arith
    then show ?thesis
      using ni unfolding n
      by (elim disjE) (auto simp: nodes_def dict_keys_def labels)
  qed
  from interactive_node_trace obtain fig
    where fig: "create_interactive_visualization = Inr fig"
      and tr: "ns_x (fig_node_trace fig) = [1, 1, 2, 4, 4, 4, 6, 8, 8, 6]"
        "ns_y (fig_node_trace fig) = [1, 3, 5, 6, 4, 2, 5, 6, 4, 2]"
        "ns_marker_color (fig_node_trace fig) =
           [''#4CAF50'', ''#607D8B'', ''#607D8B'', ''#2196F3'', ''#2196F3'',
            ''#607D8B'', ''#FF9800'', ''#9C27B0'', ''#F44336'', ''#795548'']"
        "ns_marker_size (fig_node_trace fig) = [30, 25, 25, 25, 25, 25, 30, 30, 25, 25]"
        "ns_text (fig_node_trace fig) =
           [''Users'', ''Cdn'', ''Load Balancer'', ''Web Server 1'', ''Web Server 2'',
            ''Api Gateway'', ''App Server'', ''Database'', ''Cache'', ''Storage'']"
    by blast
  have lens: "length (ns_x (fig_node_trace fig)) = length nodes"
    "length (ns_y (fig_node_trace fig)) = length nodes"
    "length (ns_marker_color (fig_node_trace fig)) = length nodes"
    "length (ns_marker_size (fig_node_trace fig)) = length nodes"
    "length (ns_text (fig_node_trace fig)) = length nodes"
    unfolding tr len by simp_all
  have "\<forall>i < length nodes. \<forall>node attrs. nodes ! i = (node, attrs) \<longrightarrow>
        digraph_nodes (build_graph nodes edges) ! i = node \<and>
        attr_pos attrs = Some (ns_x (fig_node_trace fig) ! i, ns_y (fig_node_trace fig) ! i) \<and>
        attr_color attrs = Some (ns_marker_color (fig_node_trace fig) ! i) \<and>
        attr_size attrs = Some (ns_marker_size (fig_node_trace fig) ! i) \<and>
        ns_text (fig_node_trace fig) ! i = str_title (str_replace (CHR ''_'') '' '' node)"
    unfolding tr node_text_def [symmetric] using each by blast
  with fig n lens show ?thesis by blast
qed

text \<open>
  Claim C10 at index 2, the entry \<^verbatim>\<open>'load_balancer'\<close>.
\<close>

theorem node_trace_aligned_witness:
  "\<exists>fig. create_interactive_visualization = Inr fig \<and>
     ns_x (fig_node_trace fig) ! 2 = 2 \<and> ns_y (fig_node_trace fig) ! 2 = 5 \<and>
     ns_marker_color (fig_node_trace fig) ! 2 = ''#607D8B'' \<and>
     ns_marker_size (fig_node_trace fig) ! 2 = 25 \<and>
     ns_text (fig_node_trace fig) ! 2 = ''Load Balancer''"
proof -
  from node_trace_aligned obtain fig where fig: "create_interactive_visualization = Inr fig"
    and each: "\<forall>i < length nodes. \<forall>node attrs. nodes ! i = (node, attrs) \<longrightarrow>
        digraph_nodes (build_graph nodes edges) ! i = node \<and>
        attr_pos attrs = Some (ns_x (fig_node_trace fig) ! i, ns_y (fig_node_trace fig) ! i) \<and>
        attr_color attrs = Some (ns_marker_color (fig_node_trace fig) ! i) \<and>
        attr_size attrs = Some (ns_marker_size (fig_node_trace fig) ! i) \<and>
        ns_text (fig_node_trace fig) ! i = str_title (str_replace (CHR ''_'') '' '' node)"
    by blast
  have n2: "2 < length nodes"
    "nodes ! 2 = (''load_balancer'',
       \<lparr>attr_pos = Some (2, 5), attr_color = Some ''#607D8B'', attr_size = Some 25\<rparr>)"
    by (simp_all add: nodes_def)
  have t: "str_title (str_replace (CHR ''_'') '' '' ''load_balancer'') = ''Load Balancer''"
    by (simp add: str_title_def str_replace_def
      str_islower_def str_isupper_def str_upper_def str_lower_def
      ascii_lowercase_def ascii_uppercase_def)
  from each [rule_format, OF n2] t fig show ?thesis
    by (intro exI [of _ fig]) simp
qed

text \<open>
  Claim C9. The colour key of every component is one of the seven keys of \<^verbatim>\<open>colors\<close>, so
  \<^verbatim>\<open>colors[color_key]\<close> finds a colour and the static builder returns a figure; every
  entry of the node table has a colour, so \<^verbatim>\<open>nodes[node]['color']\<close> finds it for every
  node of the graph and the interactive builder returns a figure.
\<close>

theorem color_lookups_succeed:
  "dict_keys colors = [''user'', ''web'', ''app'', ''db'', ''cache'', ''storage'', ''network''] \<and>
   (\<forall>c \<in> set components. \<forall>x y w h label color_key. c = (x, y, w, h, label, color_key) \<longrightarrow>
      color_key \<in> set (dict_keys colors) \<and> (\<exists>facecolor. dict_get colors color_key = Inr facecolor)) \<and>
   (\<exists>fig. create_matplotlib_visualization = Inr fig) \<and>
   (\<forall>entry \<in> set nodes. \<forall>node attrs. entry = (node, attrs) \<longrightarrow>
      (\<exists>c. attr_color attrs = Some c \<and> node_color nodes node = Inr c)) \<and>
   (\<exists>cs. map_exc (node_color nodes) (digraph_nodes (build_graph nodes edges)) = Inr cs) \<and>
   (\<exists>fig. create_interactive_visualization = Inr fig)"
proof -
  have "dict_keys colors = [''user'', ''web'', ''app'', ''db'', ''cache'', ''storage'', ''network'']"
    by (simp add: colors_def dict_keys_def)
  moreover have "\<forall>c \<in> set components. \<forall>x y w h label color_key. c = (x, y, w, h, label, color_key) \<longrightarrow>
      color_key \<in> set (dict_keys colors) \<and> (\<exists>facecolor. dict_get colors color_key = Inr facecolor)"
    by (simp add: components_def colors_def dict_keys_def dict_get_def)
  moreover have "\<forall>entry \<in> set nodes. \<forall>node attrs. entry = (node, attrs) \<longrightarrow>
      (\<exists>c. attr_color attrs = Some c \<and> node_color nodes node = Inr c)"
    by (simp add: nodes_def node_color_def dict_get_def)
  moreover have "\<exists>cs. map_exc (node_color nodes) (digraph_nodes (build_graph nodes edges)) = Inr cs"
    unfolding build_graph_value using node_colors_known by (simp add: digraph_nodes_def)
  moreover have "\<exists>fig. create_interactive_visualization = Inr fig"
    unfolding create_interactive_visualization_value by blast
  ultimately show ?thesis
    using create_matplotlib_visualization_ok by blast
qed

text \<open>
  Claim C9 at the component \<^verbatim>\<open>'Users'\<close> and at the node \<^verbatim>\<open>'users'\<close>.
\<close>

theorem color_lookups_succeed_witness:
  "dict_get colors ''user'' = Inr ''#4CAF50'' \<and>
   node_color nodes ''users'' = Inr ''#4CAF50''"
proof -
  have c: "(1, 0.2, 1.2, 0.6, ''Users'', ''user'') \<in> set components"
    by (simp add: components_def)
  have n: "(''users'', \<lparr>attr_pos = Some (1, 1), attr_color = Some ''#4CAF50'', attr_size = Some 30\<rparr>)
      \<in> set nodes"
    by (simp add: nodes_def)
  note a = color_lookups_succeed [THEN conjunct2, THEN conjunct1]
  note b = color_lookups_succeed [THEN conjunct2, THEN conjunct2, THEN conjunct2, THEN conjunct1]
  from a [rule_format, OF c refl] obtain facecolor
    where f: "dict_get colors ''user'' = Inr facecolor" by (elim conjE exE)
  from b [rule_format, OF n refl] obtain col
    where "attr_color \<lparr>attr_pos = Some (1, 1), attr_color = Some ''#4CAF50'', attr_size = Some 30\<rparr>
        = Some col" and nc: "node_color nodes ''users'' = Inr col"
    by (elim conjE exE)
  then have "col = ''#4CAF50''" by simp
  moreover have "map_of colors ''user'' = Some ''#4CAF50''"
    by (simp add: colors_def)
  then have "dict_get colors ''user'' = Inr ''#4CAF50''"
    by (simp add: dict_get_def)
  ultimately show ?thesis using nc by simp
qed

lemma io_bind_Inr:
  "io_bind m k w = (Inr y, w') \<longleftrightarrow> (\<exists>x w1. m w = (Inr x, w1) \<and> k x w1 = (Inr y, w'))"
  by (auto simp: io_bind_def split: prod.splits sum.splits)


lemma py_print_eq [simp]:
  "py_print s w = (r, w') \<longleftrightarrow> r = Inr () \<and> w' = w\<lparr>stdout := stdout w @ [s]\<rparr>"
  by (auto simp: py_print_def)

lemma lib_call_Inr [simp]:
  "lib_call E s r w = (Inr x, w') \<longleftrightarrow> fault E s = None \<and> r = Inr x \<and> w' = w"
  by (auto simp: lib_call_def split: option.splits)

lemma lib_call_Inl [simp]:
  "lib_call E s r w = (Inl e, w') \<longleftrightarrow>
     (fault E s = Some e \<or> fault E s = None \<and> r = Inl e) \<and> w' = w"
  by (auto simp: lib_call_def split: option.splits)

lemma fs_call_Inr [simp]:
  "fs_call E s op w = (Inr u, w') \<longleftrightarrow>
     fault E s = None \<and> (\<exists>f. op (fs w) = Inr f \<and> w' = w\<lparr>fs := f\<rparr>)"
  by (auto simp: fs_call_def split: option.splits sum.splits)

lemma fs_call_Inl [simp]:
  "fs_call E s op w = (Inl e, w') \<longleftrightarrow>
     (fault E s = Some e \<or> fault E s = None \<and> op (fs w) = Inl e) \<and> w' = w"
  by (auto simp: fs_call_def split: option.splits sum.splits)

lemma webbrowser_open_Inr [simp]:
  "webbrowser_open E url w = (Inr b, w') \<longleftrightarrow>
     fault E OpenBrowser = None \<and> b = browser_found E \<and>
     w' = (if browser_found E then w\<lparr>browser := browser w @ [url]\<rparr> else w)"
  by (auto simp: webbrowser_open_def split: option.splits)

lemma webbrowser_open_Inl [simp]:
  "webbrowser_open E url w = (Inl e, w') \<longleftrightarrow> fault E OpenBrowser = Some e \<and> w' = w"
  by (auto simp: webbrowser_open_def split: option.splits)




lemma is_ImportError_Exception: "is_ImportError e \<Longrightarrow> is_Exception e"
  by (cases e) auto

lemma main_unfold:
  "main E w =
     (case main_try E (w\<lparr>stdout := stdout w @ [emoji_rocket @ '' Creating Cloud Architecture Visualization...'']\<rparr>) of
        (Inr u, w') \<Rightarrow> (Inr (), w')
      | (Inl e, w') \<Rightarrow>
          if is_ImportError e
          then (Inr (), w'\<lparr>stdout := stdout w' @
                  [emoji_cross @ '' Missing required library: '' @ exc_str e,
                   emoji_package @ '' Please install required packages:'',
                   ''   pip install matplotlib networkx plotly'']\<rparr>)
          else if is_Exception e
          then (Inr (), w'\<lparr>stdout := stdout w' @
                  [emoji_cross @ '' Error creating visualization: '' @ exc_str e]\<rparr>)
          else (Inl e, w'))"
  by (simp add: main_def io_bind_def py_print_def except_ImportError_def except_Exception_def
      split: prod.splits sum.splits)


lemma paths0:
  "static_file (env0\<lparr>fault := g\<rparr>) = ''/tmp/cloud_architecture_static.png''"
  "html_file (env0\<lparr>fault := g\<rparr>) = ''/work/docs/index.html''"
  "os_path_dirname ''/work/docs/index.html'' = ''/work/docs''"
  "os_path_dirname ''/tmp/cloud_architecture_static.png'' = ''/tmp''"
  by (simp_all add: static_file_def html_file_def env0_def os_path_join_def os_path_dirname_def)






lemma is_OSError_kinds: "is_OSError e \<Longrightarrow> is_Exception e \<and> \<not> is_ImportError e"
  by (cases e) auto

text \<open>
  Claim C6. When \<^verbatim>\<open>savefig\<close> raises an \<^verbatim>\<open>OSError\<close>, \<^verbatim>\<open>main\<close> returns normally; it has
  printed its first two lines and the generic error line with the text of the error, and
  nothing else has happened: the file system and the browser are unchanged, so neither the
  interactive diagram nor the HTML file was made.
\<close>

theorem main_savefig_failure:
  assumes "fault E BuildStatic = None"
    and "create_matplotlib_visualization = Inr fig_static"
    and "fst (fs_call E SaveFig (\<lambda>f. fs_create f (static_file E) (Png fig_static 300 ''tight'')) w) = Inl e"
    and "is_OSError e"
  shows "main E w =
    (Inr (), w\<lparr>stdout := stdout w @
       [emoji_rocket @ '' Creating Cloud Architecture Visualization...'',
        emoji_chart @ '' Generating static diagram...'',
        emoji_cross @ '' Error creating visualization: '' @ exc_str e]\<rparr>)"
proof -
  let ?w = "w\<lparr>stdout := stdout w @ [emoji_rocket @ '' Creating Cloud Architecture Visualization...'']\<rparr>"
  let ?w' = "w\<lparr>stdout := stdout w @ [emoji_rocket @ '' Creating Cloud Architecture Visualization...'',
        emoji_chart @ '' Generating static diagram...'']\<rparr>"
  from assms(3) have sv: "fault E SaveFig = Some e \<or>
      fault E SaveFig = None \<and> fs_create (fs w) (static_file E) (Png fig_static 300 ''tight'') = Inl e"
    by (auto simp: fs_call_def split: option.splits sum.splits)
  then have "main_try E ?w = (Inl e, ?w')"
    unfolding main_try_def
    by (auto simp: io_bind_def py_print_def lib_call_def fs_call_def assms(1,2))
  with is_OSError_kinds [OF assms(4)] show ?thesis
    by (simp add: main_unfold)
qed

text \<open>
  Claim C6 in a run in which \<^verbatim>\<open>savefig\<close> raises \<^verbatim>\<open>PermissionError\<close>.
\<close>

theorem main_savefig_failure_witness:
  "main (env0\<lparr>fault := (\<lambda>s. None)(SaveFig \<mapsto> Exc PermissionError ''[Errno 13] Permission denied'')\<rparr>) world0 =
    (Inr (), world0\<lparr>stdout :=
       [emoji_rocket @ '' Creating Cloud Architecture Visualization...'',
        emoji_chart @ '' Generating static diagram...'',
        emoji_cross @ '' Error creating visualization: [Errno 13] Permission denied'']\<rparr>)"
proof -
  let ?e = "Exc PermissionError ''[Errno 13] Permission denied''"
  let ?E = "env0\<lparr>fault := (\<lambda>s. None)(SaveFig \<mapsto> ?e)\<rparr>"
  obtain sfig where s: "create_matplotlib_visualization = Inr sfig"
    using create_matplotlib_visualization_ok by blast
  have a: "fault ?E BuildStatic = None" by simp
  have b: "fst (fs_call ?E SaveFig (\<lambda>f. fs_create f (static_file ?E) (Png sfig 300 ''tight'')) world0) = Inl ?e"
    by (simp add: fs_call_def)
  have c: "is_OSError ?e" by simp
  from main_savefig_failure [OF a s b c] show ?thesis
    by (simp add: world0_def)
qed

lemma fs_create_Inr:
  "fs_create f p c = Inr g \<longleftrightarrow>
     f p \<noteq> Some Dir \<and> f (os_path_dirname p) = Some Dir \<and> g = f(p \<mapsto> File c)"
  by (auto simp: fs_create_def split: option.splits fsnode.splits)

lemma fs_makedirs_Inr:
  "fs_makedirs f p = Inr g \<longleftrightarrow> f p = Some Dir \<and> g = f \<or> f p = None \<and> g = f(p \<mapsto> Dir)"
  by (auto simp: fs_makedirs_def split: option.splits fsnode.splits)

lemma fs_rerun:
  assumes c1: "fs_create f s c1 = Inr f1"
    and m: "fs_makedirs f1 (os_path_dirname h) = Inr f2"
    and c2: "fs_create f2 h c2 = Inr f3"
  shows "\<exists>g3. fs_create (f3(h \<mapsto> File c3)) s c1' = Inr ((f3(h \<mapsto> File c3))(s \<mapsto> File c1')) \<and>
           fs_makedirs ((f3(h \<mapsto> File c3))(s \<mapsto> File c1')) (os_path_dirname h) =
             Inr ((f3(h \<mapsto> File c3))(s \<mapsto> File c1')) \<and>
           fs_create ((f3(h \<mapsto> File c3))(s \<mapsto> File c1')) h c2' = Inr g3 \<and>
           (f3(h \<mapsto> File c3)) (os_path_dirname h) = Some Dir"
proof -
  let ?d = "os_path_dirname h"
  let ?ds = "os_path_dirname s"
  let ?F = "f3(h \<mapsto> File c3)"
  let ?G = "?F(s \<mapsto> File c1')"
  from c1 have a1: "f s \<noteq> Some Dir" "f ?ds = Some Dir" "f1 = f(s \<mapsto> File c1)"
    by (simp_all add: fs_create_Inr)
  from m have a2: "f1 ?d = Some Dir \<and> f2 = f1 \<or> f1 ?d = None \<and> f2 = f1(?d \<mapsto> Dir)"
    by (simp add: fs_makedirs_Inr)
  from c2 have a3: "f2 h \<noteq> Some Dir" "f2 ?d = Some Dir" "f3 = f2(h \<mapsto> File c2)"
    by (simp_all add: fs_create_Inr)
  have hd: "h \<noteq> ?d" using a3 by auto
  have sd: "s \<noteq> ?d" using a1(3) a2 by auto
  have sds: "s \<noteq> ?ds" using a1 by auto
  have f2_else: "f2 p = f1 p" if "p \<noteq> ?d" for p using a2 that by auto
  have dsh: "?ds \<noteq> h"
  proof
    assume eq: "?ds = h"
    then have "f1 h = Some Dir" using a1 sds by auto
    then have "f2 h = Some Dir" using f2_else [OF hd] by simp
    with a3(1) show False by simp
  qed
  have Fd: "?F ?d = Some Dir" using a3 hd by auto
  have Fs: "?F s \<noteq> Some Dir"
  proof (cases "s = h")
    case True then show ?thesis by simp
  next
    case False
    then have "?F s = f1 s" using a3(3) f2_else [OF sd] by simp
    then show ?thesis using a1(3) by simp
  qed
  have Fds: "?F ?ds = Some Dir"
  proof (cases "?ds = ?d")
    case True then show ?thesis using Fd by simp
  next
    case False
    then have "?F ?ds = f1 ?ds" using a3(3) dsh f2_else by simp
    then show ?thesis using a1 sds by auto
  qed
  have g1: "fs_create ?F s c1' = Inr ?G"
    using Fs Fds by (simp add: fs_create_Inr)
  have Gd: "?G ?d = Some Dir" using Fd sd by auto
  then have g2: "fs_makedirs ?G ?d = Inr ?G"
    by (simp add: fs_makedirs_Inr)
  have "?G h \<noteq> Some Dir" by auto
  with Gd have g3: "fs_create ?G h c2' = Inr (?G(h \<mapsto> File c2'))"
    by (simp add: fs_create_Inr)
  from g1 g2 g3 Fd show ?thesis by blast
qed

lemma main_try_success_fwd:
  assumes "main_try E w = (Inr (), w')"
    and "create_matplotlib_visualization = Inr sfig"
    and "create_interactive_visualization = Inr ifig"
  shows "\<exists>f1 f2 f3.
    fs_create (fs w) (static_file E) (Png sfig 300 ''tight'') = Inr f1 \<and>
    fs_makedirs f1 (os_path_dirname (html_file E)) = Inr f2 \<and>
    fs_create f2 (html_file E) (Html []) = Inr f3 \<and>
    fs w' = f3(html_file E \<mapsto> File (Html (html_content (now E) (plot_div E ifig))))"
  using assms(1) unfolding main_try_def io_bind_Inr assms(2,3)
  by (elim exE conjE) (auto split: if_splits)

lemma main_try_success_bwd:
  assumes "\<forall>s. fault E s = None"
    and "create_matplotlib_visualization = Inr sfig"
    and "create_interactive_visualization = Inr ifig"
    and "fs_create (fs w) (static_file E) (Png sfig 300 ''tight'') = Inr f1"
    and "fs_makedirs f1 (os_path_dirname (html_file E)) = Inr f2"
    and "fs_create f2 (html_file E) (Html []) = Inr f3"
  shows "main_try E w =
    (Inr (),
     \<lparr>fs = f3(html_file E \<mapsto> File (Html (html_content (now E) (plot_div E ifig)))),
      stdout = stdout w @
        [emoji_chart @ '' Generating static diagram...'',
         emoji_disk @ '' Static diagram saved to: '' @ static_file E,
         emoji_globe @ '' Generating interactive diagram...'',
         emoji_disk @ '' Interactive diagram saved to: '' @ html_file E,
         emoji_globe @ '' Opening visualization in browser...'',
         emoji_check @ '' Visualization created successfully!'',
         emoji_folder @ '' Files created:'',
         ''   - Static PNG: '' @ static_file E,
         ''   - Interactive HTML: '' @ html_file E],
      browser = browser w @ (if browser_found E then [''file://'' @ html_file E] else [])\<rparr>)"
  unfolding main_try_def
  by (simp add: io_bind_def py_print_def lib_call_def fs_call_def webbrowser_open_def assms)

text \<open>
  Claim C5. After a run of \<^verbatim>\<open>main\<close> that completed its \<^verbatim>\<open>try\<close> block, a second run in
  the same directories, at another time and with no library call failing, completes as
  well: \<^verbatim>\<open>os.makedirs\<close> finds the \<^verbatim>\<open>docs\<close> directory and leaves the file system as it
  is. The HTML files of both runs are the same three constant texts around the time and
  the plot of the run.
\<close>

theorem main_rerun:
  assumes "main_try E1 (w\<lparr>stdout := stdout w @
              [emoji_rocket @ '' Creating Cloud Architecture Visualization...'']\<rparr>) = (Inr (), w1)"
    and "tmpdir E2 = tmpdir E1" and "cwd E2 = cwd E1"
    and "\<forall>s. fault E2 s = None"
  shows "\<exists>fig w2.
    create_interactive_visualization = Inr fig \<and>
    main E1 w = (Inr (), w1) \<and>
    fs w1 (html_file E1) =
      Some (File (Html (html_head @ now E1 @ html_mid @ plot_div E1 fig @ html_tail))) \<and>
    fs w1 (os_path_dirname (html_file E1)) = Some Dir \<and>
    html_file E2 = html_file E1 \<and>
    fs_makedirs (fs w1) (os_path_dirname (html_file E2)) = Inr (fs w1) \<and>
    main E2 w1 = (Inr (), w2) \<and>
    last (stdout w2) = ''   - Interactive HTML: '' @ html_file E2 \<and>
    fs w2 (html_file E2) =
      Some (File (Html (html_head @ now E2 @ html_mid @ plot_div E2 fig @ html_tail)))"
proof -
  let ?rocket = "emoji_rocket @ '' Creating Cloud Architecture Visualization...''"
  obtain sfig where s: "create_matplotlib_visualization = Inr sfig"
    using create_matplotlib_visualization_ok by blast
  obtain ifig where i: "create_interactive_visualization = Inr ifig"
    using create_interactive_visualization_value by blast
  have paths: "static_file E2 = static_file E1" "html_file E2 = html_file E1"
    using assms(2,3) by (simp_all add: static_file_def html_file_def)
  from main_try_success_fwd [OF assms(1) s i] obtain f1 f2 f3
    where f1: "fs_create (fs w) (static_file E1) (Png sfig 300 ''tight'') = Inr f1"
      and f2: "fs_makedirs f1 (os_path_dirname (html_file E1)) = Inr f2"
      and f3: "fs_create f2 (html_file E1) (Html []) = Inr f3"
      and w1: "fs w1 = f3(html_file E1 \<mapsto> File (Html (html_content (now E1) (plot_div E1 ifig))))"
    by auto
  let ?c = "Html (html_content (now E1) (plot_div E1 ifig))"
  let ?F = "f3(html_file E1 \<mapsto> File ?c)"
  let ?G = "?F(static_file E1 \<mapsto> File (Png sfig 300 ''tight''))"
  from fs_rerun [OF f1 f2 f3, of ?c "Png sfig 300 ''tight''" "Html []"] obtain g3
    where g1: "fs_create ?F (static_file E1) (Png sfig 300 ''tight'') = Inr ?G"
      and g2: "fs_makedirs ?G (os_path_dirname (html_file E1)) = Inr ?G"
      and g3: "fs_create ?G (html_file E1) (Html []) = Inr g3"
      and d: "?F (os_path_dirname (html_file E1)) = Some Dir"
    by blast
  let ?w1 = "w1\<lparr>stdout := stdout w1 @ [?rocket]\<rparr>"
  have fsw: "fs ?w1 = ?F" using w1 by simp
  note run2 = main_try_success_bwd [of E2 sfig ifig ?w1 ?G ?G g3, OF assms(4) s i,
      unfolded paths fsw, OF g1 g2 g3]
  have m1: "main E1 w = (Inr (), w1)"
    using assms(1) by (simp add: main_unfold)
  have md: "fs_makedirs (fs w1) (os_path_dirname (html_file E1)) = Inr (fs w1)"
    using d w1 by (simp add: fs_makedirs_Inr)
  show ?thesis
    apply (rule exI [of _ ifig])
    apply (intro exI conjI)
            apply (rule i)
           apply (rule m1)
          apply (simp add: w1 html_content_def)
         apply (simp only: w1 d)
        apply (rule paths(2))
       apply (simp add: paths md)
      apply (simp add: main_unfold run2)
     apply (simp add: paths)
    apply (simp add: paths html_content_def)
    done
qed

lemma paths_tmp_work:
  assumes "tmpdir E = ''/tmp''" and "cwd E = ''/work''"
  shows "static_file E = ''/tmp/cloud_architecture_static.png''"
    and "html_file E = ''/work/docs/index.html''"
  using assms by (simp_all add: static_file_def html_file_def os_path_join_def)

lemma main_try_env0:
  assumes "create_matplotlib_visualization = Inr sfig"
    and "create_interactive_visualization = Inr ifig"
    and "tmpdir E = ''/tmp''" and "cwd E = ''/work''" and "\<forall>s. fault E s = None"
  shows "main_try E (world0\<lparr>stdout := out\<rparr>) =
    (Inr (),
     \<lparr>fs = [''/tmp'' \<mapsto> Dir, ''/work'' \<mapsto> Dir,
             ''/tmp/cloud_architecture_static.png'' \<mapsto> File (Png sfig 300 ''tight''),
             ''/work/docs'' \<mapsto> Dir,
             ''/work/docs/index.html'' \<mapsto> File (Html (html_content (now E) (plot_div E ifig)))],
      stdout = out @
        [emoji_chart @ '' Generating static diagram...'',
         emoji_disk @ '' Static diagram saved to: /tmp/cloud_architecture_static.png'',
         emoji_globe @ '' Generating interactive diagram...'',
         emoji_disk @ '' Interactive diagram saved to: /work/docs/index.html'',
         emoji_globe @ '' Opening visualization in browser...'',
         emoji_check @ '' Visualization created successfully!'',
         emoji_folder @ '' Files created:'',
         ''   - Static PNG: /tmp/cloud_architecture_static.png'',
         ''   - Interactive HTML: /work/docs/index.html''],
      browser = (if browser_found E then [''file:///work/docs/index.html''] else [])\<rparr>)"
proof -
  note p = paths_tmp_work [OF assms(3,4)]
  have f1: "fs_create (fs (world0\<lparr>stdout := out\<rparr>)) (static_file E) (Png sfig 300 ''tight'') =
      Inr [''/tmp'' \<mapsto> Dir, ''/work'' \<mapsto> Dir,
           ''/tmp/cloud_architecture_static.png'' \<mapsto> File (Png sfig 300 ''tight'')]"
    unfolding p by (simp add: fs_create_Inr world0_def paths0)
  have f2: "fs_makedirs [''/tmp'' \<mapsto> Dir, ''/work'' \<mapsto> Dir,
           ''/tmp/cloud_architecture_static.png'' \<mapsto> File (Png sfig 300 ''tight'')]
        (os_path_dirname (html_file E)) =
      Inr [''/tmp'' \<mapsto> Dir, ''/work'' \<mapsto> Dir,
           ''/tmp/cloud_architecture_static.png'' \<mapsto> File (Png sfig 300 ''tight''),
           ''/work/docs'' \<mapsto> Dir]"
    unfolding p by (simp add: fs_makedirs_Inr paths0)
  have f3: "fs_create [''/tmp'' \<mapsto> Dir, ''/work'' \<mapsto> Dir,
           ''/tmp/cloud_architecture_static.png'' \<mapsto> File (Png sfig 300 ''tight''),
           ''/work/docs'' \<mapsto> Dir] (html_file E) (Html []) =
      Inr [''/tmp'' \<mapsto> Dir, ''/work'' \<mapsto> Dir,
           ''/tmp/cloud_architecture_static.png'' \<mapsto> File (Png sfig 300 ''tight''),
           ''/work/docs'' \<mapsto> Dir, ''/work/docs/index.html'' \<mapsto> File (Html [])]"
    unfolding p by (simp add: fs_create_Inr paths0)
  from main_try_success_bwd [OF assms(5,1,2) f1 f2 f3] show ?thesis
    unfolding p by (simp add: world0_def)
qed

text \<open>
  Claim C5 for two runs in \<^verbatim>\<open>/work\<close>, a day apart.
\<close>

theorem main_rerun_witness:
  "\<exists>fig w1 w2.
     create_interactive_visualization = Inr fig \<and>
     main env0 world0 = (Inr (), w1) \<and>
     main (env0\<lparr>now := ''2024-05-02 08:30:00''\<rparr>) w1 = (Inr (), w2) \<and>
     fs_makedirs (fs w1) ''/work/docs'' = Inr (fs w1) \<and>
     fs w1 ''/work/docs/index.html'' =
       Some (File (Html (html_head @ ''2024-05-01 12:00:00'' @ html_mid @ ''<div>plot</div>'' @ html_tail))) \<and>
     fs w2 ''/work/docs/index.html'' =
       Some (File (Html (html_head @ ''2024-05-02 08:30:00'' @ html_mid @ ''<div>plot</div>'' @ html_tail)))"
proof -
  let ?E2 = "env0\<lparr>now := ''2024-05-02 08:30:00''\<rparr>"
  obtain sfig where s: "create_matplotlib_visualization = Inr sfig"
    using create_matplotlib_visualization_ok by blast
  obtain ifig where i: "create_interactive_visualization = Inr ifig"
    using create_interactive_visualization_value by blast
  have e0: "tmpdir env0 = ''/tmp''" "cwd env0 = ''/work''" "\<forall>s. fault env0 s = None"
    by (simp_all add: env0_def)
  obtain w1 where run1: "main_try env0 (world0\<lparr>stdout := stdout world0 @
      [emoji_rocket @ '' Creating Cloud Architecture Visualization...'']\<rparr>) = (Inr (), w1)"
    using main_try_env0 [OF s i e0] by simp
  have e2: "tmpdir ?E2 = tmpdir env0" "cwd ?E2 = cwd env0" "\<forall>s. fault ?E2 s = None"
    by (simp_all add: env0_def)
  from main_rerun [OF run1 e2] obtain fig w2
    where "create_interactive_visualization = Inr fig"
      and "main env0 world0 = (Inr (), w1)"
      and "fs w1 (html_file env0) =
        Some (File (Html (html_head @ now env0 @ html_mid @ plot_div env0 fig @ html_tail)))"
      and "fs_makedirs (fs w1) (os_path_dirname (html_file ?E2)) = Inr (fs w1)"
      and "main ?E2 w1 = (Inr (), w2)"
      and "fs w2 (html_file ?E2) =
        Some (File (Html (html_head @ now ?E2 @ html_mid @ plot_div ?E2 fig @ html_tail)))"
    by blast
  moreover have "html_file env0 = ''/work/docs/index.html''" "html_file ?E2 = ''/work/docs/index.html''"
    by (simp_all add: paths_tmp_work env0_def)
  moreover have "now env0 = ''2024-05-01 12:00:00''" "now ?E2 = ''2024-05-02 08:30:00''"
    "plot_div env0 fig = ''<div>plot</div>''" "plot_div ?E2 fig = ''<div>plot</div>''"
    by (simp_all add: env0_def)
  ultimately show ?thesis
    by (intro exI [of _ fig] exI [of _ w1] exI [of _ w2]) (simp add: paths0)
qed

lemma main_try_success_faults:
  assumes "main_try E w = (Inr (), w')"
  shows "fault E s = None"
proof -
  obtain sfig where s: "create_matplotlib_visualization = Inr sfig"
    using create_matplotlib_visualization_ok by blast
  obtain ifig where i: "create_interactive_visualization = Inr ifig"
    using create_interactive_visualization_value by blast
  from assms have "fault E BuildStatic = None \<and> fault E SaveFig = None \<and>
      fault E BuildInteractive = None \<and> fault E MakeDirs = None \<and> fault E Plot = None \<and>
      fault E OpenHtml = None \<and> fault E WriteHtml = None \<and> fault E OpenBrowser = None"
    unfolding main_try_def io_bind_Inr s i
    by (elim exE conjE) simp
  then show ?thesis by (cases s) simp_all
qed

lemma main_try_browser_fault:
  assumes "\<forall>s. s \<noteq> OpenBrowser \<longrightarrow> fault E s = None"
    and "fault E OpenBrowser = Some e"
    and "create_matplotlib_visualization = Inr sfig"
    and "create_interactive_visualization = Inr ifig"
    and "fs_create (fs w) (static_file E) (Png sfig 300 ''tight'') = Inr f1"
    and "fs_makedirs f1 (os_path_dirname (html_file E)) = Inr f2"
    and "fs_create f2 (html_file E) (Html []) = Inr f3"
  shows "main_try E w =
    (Inl e,
     \<lparr>fs = f3(html_file E \<mapsto> File (Html (html_content (now E) (plot_div E ifig)))),
      stdout = stdout w @
        [emoji_chart @ '' Generating static diagram...'',
         emoji_disk @ '' Static diagram saved to: '' @ static_file E,
         emoji_globe @ '' Generating interactive diagram...'',
         emoji_disk @ '' Interactive diagram saved to: '' @ html_file E,
         emoji_globe @ '' Opening visualization in browser...''],
      browser = browser w\<rparr>)"
  unfolding main_try_def
  by (simp add: io_bind_def py_print_def lib_call_def fs_call_def webbrowser_open_def assms)

text \<open>
  Claim C8, as amended. Take a run that completes when the browser is launched. The same
  run in which \<^verbatim>\<open>webbrowser.open\<close> returns \<^verbatim>\<open>False\<close> prints the same lines, success
  lines included, and writes the same files. The same run in which \<^verbatim>\<open>webbrowser.open\<close>
  raises an error still returns normally with both files written, but prints the line of
  the handler in place of the four success lines.
\<close>

theorem browser_launch_failure:
  assumes "main_try (E\<lparr>browser_found := True, fault := (fault E)(OpenBrowser := None)\<rparr>)
             (w\<lparr>stdout := stdout w @
                [emoji_rocket @ '' Creating Cloud Architecture Visualization...'']\<rparr>) = (Inr (), w_ok)"
  shows "(fault E OpenBrowser = None \<and> \<not> browser_found E \<longrightarrow>
            main E w = (Inr (), w_ok\<lparr>browser := browser w\<rparr>)) \<and>
         (\<forall>e. fault E OpenBrowser = Some e \<and> is_Exception e \<longrightarrow>
            fst (main E w) = Inr () \<and>
            fs (snd (main E w)) = fs w_ok \<and>
            browser (snd (main E w)) = browser w \<and>
            stdout (snd (main E w)) = stdout w @
              [emoji_rocket @ '' Creating Cloud Architecture Visualization...'',
               emoji_chart @ '' Generating static diagram...'',
               emoji_disk @ '' Static diagram saved to: '' @ static_file E,
               emoji_globe @ '' Generating interactive diagram...'',
               emoji_disk @ '' Interactive diagram saved to: '' @ html_file E,
               emoji_globe @ '' Opening visualization in browser...''] @
              (if is_ImportError e
               then [emoji_cross @ '' Missing required library: '' @ exc_str e,
                     emoji_package @ '' Please install required packages:'',
                     ''   pip install matplotlib networkx plotly'']
               else [emoji_cross @ '' Error creating visualization: '' @ exc_str e]))"
proof -
  let ?E = "E\<lparr>browser_found := True, fault := (fault E)(OpenBrowser := None)\<rparr>"
  let ?w = "w\<lparr>stdout := stdout w @ [emoji_rocket @ '' Creating Cloud Architecture Visualization...'']\<rparr>"
  obtain sfig where s: "create_matplotlib_visualization = Inr sfig"
    using create_matplotlib_visualization_ok by blast
  obtain ifig where i: "create_interactive_visualization = Inr ifig"
    using create_interactive_visualization_value by blast
  have same: "static_file ?E = static_file E" "html_file ?E = html_file E"
    "now ?E = now E" "plot_div ?E = plot_div E"
    by (simp_all add: static_file_def html_file_def)
  have nofault': "\<forall>s. fault ?E s = None"
    using main_try_success_faults [OF assms] by blast
  then have others: "\<forall>s. s \<noteq> OpenBrowser \<longrightarrow> fault E s = None"
    by (auto split: if_splits)
  from main_try_success_fwd [OF assms s i] obtain f1 f2 f3
    where f1: "fs_create (fs ?w) (static_file E) (Png sfig 300 ''tight'') = Inr f1"
      and f2: "fs_makedirs f1 (os_path_dirname (html_file E)) = Inr f2"
      and f3: "fs_create f2 (html_file E) (Html []) = Inr f3"
    unfolding same by blast
  note ok = main_try_success_bwd [OF nofault' s i, of ?w, unfolded same, OF f1 f2 f3]
  have w_ok: "w_ok =
     \<lparr>fs = f3(html_file E \<mapsto> File (Html (html_content (now E) (plot_div E ifig)))),
      stdout = stdout ?w @
        [emoji_chart @ '' Generating static diagram...'',
         emoji_disk @ '' Static diagram saved to: '' @ static_file E,
         emoji_globe @ '' Generating interactive diagram...'',
         emoji_disk @ '' Interactive diagram saved to: '' @ html_file E,
         emoji_globe @ '' Opening visualization in browser...'',
         emoji_check @ '' Visualization created successfully!'',
         emoji_folder @ '' Files created:'',
         ''   - Static PNG: '' @ static_file E,
         ''   - Interactive HTML: '' @ html_file E],
      browser = browser ?w @ [''file://'' @ html_file E]\<rparr>"
    using ok assms by simp
  have a: "main E w = (Inr (), w_ok\<lparr>browser := browser w\<rparr>)"
    if "fault E OpenBrowser = None" and "\<not> browser_found E"
  proof -
    from that(1) others have "\<forall>s. fault E s = None" by metis
    from main_try_success_bwd [OF this s i f1 f2 f3] that(2) show ?thesis
      by (simp add: main_unfold w_ok)
  qed
  have b: "fst (main E w) = Inr () \<and>
            fs (snd (main E w)) = fs w_ok \<and>
            browser (snd (main E w)) = browser w \<and>
            stdout (snd (main E w)) = stdout w @
              [emoji_rocket @ '' Creating Cloud Architecture Visualization...'',
               emoji_chart @ '' Generating static diagram...'',
               emoji_disk @ '' Static diagram saved to: '' @ static_file E,
               emoji_globe @ '' Generating interactive diagram...'',
               emoji_disk @ '' Interactive diagram saved to: '' @ html_file E,
               emoji_globe @ '' Opening visualization in browser...''] @
              (if is_ImportError e
               then [emoji_cross @ '' Missing required library: '' @ exc_str e,
                     emoji_package @ '' Please install required packages:'',
                     ''   pip install matplotlib networkx plotly'']
               else [emoji_cross @ '' Error creating visualization: '' @ exc_str e])"
    if "fault E OpenBrowser = Some e" and "is_Exception e" for e
    using main_try_browser_fault [OF others that(1) s i f1 f2 f3] that(2)
    by (simp add: main_unfold w_ok)
  from a b show ?thesis by blast
qed

lemma main_try_env0_browser_fault:
  assumes "create_matplotlib_visualization = Inr sfig"
    and "create_interactive_visualization = Inr ifig"
  shows "main_try (env0\<lparr>fault := (\<lambda>s. None)(OpenBrowser \<mapsto> e)\<rparr>) (world0\<lparr>stdout := out\<rparr>) =
    (Inl e,
     \<lparr>fs = [''/tmp'' \<mapsto> Dir, ''/work'' \<mapsto> Dir,
             ''/tmp/cloud_architecture_static.png'' \<mapsto> File (Png sfig 300 ''tight''),
             ''/work/docs'' \<mapsto> Dir,
             ''/work/docs/index.html'' \<mapsto>
               File (Html (html_content ''2024-05-01 12:00:00'' ''<div>plot</div>''))],
      stdout = out @
        [emoji_chart @ '' Generating static diagram...'',
         emoji_disk @ '' Static diagram saved to: /tmp/cloud_architecture_static.png'',
         emoji_globe @ '' Generating interactive diagram...'',
         emoji_disk @ '' Interactive diagram saved to: /work/docs/index.html'',
         emoji_globe @ '' Opening visualization in browser...''],
      browser = []\<rparr>)"
proof -
  let ?E = "env0\<lparr>fault := (\<lambda>s. None)(OpenBrowser \<mapsto> e)\<rparr>"
  have f1: "fs_create (fs (world0\<lparr>stdout := out\<rparr>)) (static_file ?E) (Png sfig 300 ''tight'') =
      Inr [''/tmp'' \<mapsto> Dir, ''/work'' \<mapsto> Dir,
           ''/tmp/cloud_architecture_static.png'' \<mapsto> File (Png sfig 300 ''tight'')]"
    unfolding paths0 by (simp add: fs_create_Inr world0_def paths0)
  have f2: "fs_makedirs [''/tmp'' \<mapsto> Dir, ''/work'' \<mapsto> Dir,
           ''/tmp/cloud_architecture_static.png'' \<mapsto> File (Png sfig 300 ''tight'')]
        (os_path_dirname (html_file ?E)) =
      Inr [''/tmp'' \<mapsto> Dir, ''/work'' \<mapsto> Dir,
           ''/tmp/cloud_architecture_static.png'' \<mapsto> File (Png sfig 300 ''tight''),
           ''/work/docs'' \<mapsto> Dir]"
    unfolding paths0 by (simp add: fs_makedirs_Inr)
  have f3: "fs_create [''/tmp'' \<mapsto> Dir, ''/work'' \<mapsto> Dir,
           ''/tmp/cloud_architecture_static.png'' \<mapsto> File (Png sfig 300 ''tight''),
           ''/work/docs'' \<mapsto> Dir] (html_file ?E) (Html []) =
      Inr [''/tmp'' \<mapsto> Dir, ''/work'' \<mapsto> Dir,
           ''/tmp/cloud_architecture_static.png'' \<mapsto> File (Png sfig 300 ''tight''),
           ''/work/docs'' \<mapsto> Dir, ''/work/docs/index.html'' \<mapsto> File (Html [])]"
    unfolding paths0 by (simp add: fs_create_Inr paths0)
  have o: "\<forall>s. s \<noteq> OpenBrowser \<longrightarrow> fault ?E s = None" "fault ?E OpenBrowser = Some e"
    by simp_all
  from main_try_browser_fault [OF o assms f1 f2 f3] show ?thesis
    unfolding paths0 by (simp add: world0_def env0_def)
qed

lemma main_env0:
  assumes "create_matplotlib_visualization = Inr sfig"
    and "create_interactive_visualization = Inr ifig"
    and "tmpdir E = ''/tmp''" and "cwd E = ''/work''" and "\<forall>s. fault E s = None"
  shows "main E world0 =
    (Inr (),
     \<lparr>fs = [''/tmp'' \<mapsto> Dir, ''/work'' \<mapsto> Dir,
             ''/tmp/cloud_architecture_static.png'' \<mapsto> File (Png sfig 300 ''tight''),
             ''/work/docs'' \<mapsto> Dir,
             ''/work/docs/index.html'' \<mapsto> File (Html (html_content (now E) (plot_div E ifig)))],
      stdout =
        [emoji_rocket @ '' Creating Cloud Architecture Visualization...'',
         emoji_chart @ '' Generating static diagram...'',
         emoji_disk @ '' Static diagram saved to: /tmp/cloud_architecture_static.png'',
         emoji_globe @ '' Generating interactive diagram...'',
         emoji_disk @ '' Interactive diagram saved to: /work/docs/index.html'',
         emoji_globe @ '' Opening visualization in browser...'',
         emoji_check @ '' Visualization created successfully!'',
         emoji_folder @ '' Files created:'',
         ''   - Static PNG: /tmp/cloud_architecture_static.png'',
         ''   - Interactive HTML: /work/docs/index.html''],
      browser = (if browser_found E then [''file:///work/docs/index.html''] else [])\<rparr>)"
  using main_try_env0 [OF assms, of "stdout world0 @ [emoji_rocket @ '' Creating Cloud Architecture Visualization...'']"]
  by (simp add: main_unfold world0_def)

text \<open>
  Claim C8 as stated fails when the launch fails by raising: the \<^verbatim>\<open>try\<close> block ends at
  \<^verbatim>\<open>webbrowser.open\<close>, the success lines are not printed and the run is reported as an
  error.
\<close>

theorem browser_exception_skips_success:
  "stdout (snd (main (env0\<lparr>fault := (\<lambda>s. None)(OpenBrowser \<mapsto>
       Exc OSError ''[Errno 32] Broken pipe'')\<rparr>) world0)) =
     [emoji_rocket @ '' Creating Cloud Architecture Visualization...'',
      emoji_chart @ '' Generating static diagram...'',
      emoji_disk @ '' Static diagram saved to: /tmp/cloud_architecture_static.png'',
      emoji_globe @ '' Generating interactive diagram...'',
      emoji_disk @ '' Interactive diagram saved to: /work/docs/index.html'',
      emoji_globe @ '' Opening visualization in browser...'',
      emoji_cross @ '' Error creating visualization: [Errno 32] Broken pipe''] \<and>
   stdout (snd (main env0 world0)) =
     [emoji_rocket @ '' Creating Cloud Architecture Visualization...'',
      emoji_chart @ '' Generating static diagram...'',
      emoji_disk @ '' Static diagram saved to: /tmp/cloud_architecture_static.png'',
      emoji_globe @ '' Generating interactive diagram...'',
      emoji_disk @ '' Interactive diagram saved to: /work/docs/index.html'',
      emoji_globe @ '' Opening visualization in browser...'',
      emoji_check @ '' Visualization created successfully!'',
      emoji_folder @ '' Files created:'',
      ''   - Static PNG: /tmp/cloud_architecture_static.png'',
      ''   - Interactive HTML: /work/docs/index.html''] \<and>
   emoji_check @ '' Visualization created successfully!'' \<notin>
     set (stdout (snd (main (env0\<lparr>fault := (\<lambda>s. None)(OpenBrowser \<mapsto>
       Exc OSError ''[Errno 32] Broken pipe'')\<rparr>) world0)))"
proof -
  let ?e = "Exc OSError ''[Errno 32] Broken pipe''"
  let ?E = "env0\<lparr>fault := (\<lambda>s. None)(OpenBrowser \<mapsto> ?e)\<rparr>"
  obtain sfig where s: "create_matplotlib_visualization = Inr sfig"
    using create_matplotlib_visualization_ok by blast
  obtain ifig where i: "create_interactive_visualization = Inr ifig"
    using create_interactive_visualization_value by blast
  have e0: "tmpdir env0 = ''/tmp''" "cwd env0 = ''/work''" "\<forall>s. fault env0 s = None"
    by (simp_all add: env0_def)
  have bad: "stdout (snd (main ?E world0)) =
     [emoji_rocket @ '' Creating Cloud Architecture Visualization...'',
      emoji_chart @ '' Generating static diagram...'',
      emoji_disk @ '' Static diagram saved to: /tmp/cloud_architecture_static.png'',
      emoji_globe @ '' Generating interactive diagram...'',
      emoji_disk @ '' Interactive diagram saved to: /work/docs/index.html'',
      emoji_globe @ '' Opening visualization in browser...'',
      emoji_cross @ '' Error creating visualization: [Errno 32] Broken pipe'']"
    using main_try_env0_browser_fault [OF s i, of ?e
        "stdout world0 @ [emoji_rocket @ '' Creating Cloud Architecture Visualization...'']"]
    by (simp add: main_unfold world0_def)
  have good: "stdout (snd (main env0 world0)) =
     [emoji_rocket @ '' Creating Cloud Architecture Visualization...'',
      emoji_chart @ '' Generating static diagram...'',
      emoji_disk @ '' Static diagram saved to: /tmp/cloud_architecture_static.png'',
      emoji_globe @ '' Generating interactive diagram...'',
      emoji_disk @ '' Interactive diagram saved to: /work/docs/index.html'',
      emoji_globe @ '' Opening visualization in browser...'',
      emoji_check @ '' Visualization created successfully!'',
      emoji_folder @ '' Files created:'',
      ''   - Static PNG: /tmp/cloud_architecture_static.png'',
      ''   - Interactive HTML: /work/docs/index.html'']"
    by (simp add: main_env0 [OF s i e0])
  have "emoji_check @ '' Visualization created successfully!'' \<notin> set (stdout (snd (main ?E world0)))"
    unfolding bad
    by (simp add: emoji_check_def emoji_rocket_def emoji_chart_def emoji_disk_def
        emoji_globe_def emoji_cross_def)
  with bad good show ?thesis by blast
qed

text \<open>
  Claim C8 (amended) in \<^verbatim>\<open>/work\<close>: once with no browser found, once with
  \<^verbatim>\<open>webbrowser.open\<close> raising \<^verbatim>\<open>OSError\<close>.
\<close>

theorem browser_launch_failure_witness:
  "main (env0\<lparr>browser_found := False\<rparr>) world0 =
     (Inr (), (snd (main env0 world0))\<lparr>browser := []\<rparr>) \<and>
   last (stdout (snd (main (env0\<lparr>browser_found := False\<rparr>) world0))) =
     ''   - Interactive HTML: /work/docs/index.html'' \<and>
   fst (main (env0\<lparr>fault := (\<lambda>s. None)(OpenBrowser \<mapsto>
       Exc OSError ''[Errno 32] Broken pipe'')\<rparr>) world0) = Inr () \<and>
   fs (snd (main (env0\<lparr>fault := (\<lambda>s. None)(OpenBrowser \<mapsto>
       Exc OSError ''[Errno 32] Broken pipe'')\<rparr>) world0)) =
     fs (snd (main env0 world0)) \<and>
   last (stdout (snd (main (env0\<lparr>fault := (\<lambda>s. None)(OpenBrowser \<mapsto>
       Exc OSError ''[Errno 32] Broken pipe'')\<rparr>) world0))) =
     emoji_cross @ '' Error creating visualization: [Errno 32] Broken pipe''"
proof -
  let ?rocket = "emoji_rocket @ '' Creating Cloud Architecture Visualization...''"
  let ?e = "Exc OSError ''[Errno 32] Broken pipe''"
  let ?Ea = "env0\<lparr>browser_found := False\<rparr>"
  let ?Eb = "env0\<lparr>fault := (\<lambda>s. None)(OpenBrowser \<mapsto> ?e)\<rparr>"
  obtain sfig where s: "create_matplotlib_visualization = Inr sfig"
    using create_matplotlib_visualization_ok by blast
  obtain ifig where i: "create_interactive_visualization = Inr ifig"
    using create_interactive_visualization_value by blast
  have e0: "tmpdir env0 = ''/tmp''" "cwd env0 = ''/work''" "\<forall>s. fault env0 s = None"
    by (simp_all add: env0_def)
  have ea: "?Ea\<lparr>browser_found := True, fault := (fault ?Ea)(OpenBrowser := None)\<rparr> = env0"
    and eb: "?Eb\<lparr>browser_found := True, fault := (fault ?Eb)(OpenBrowser := None)\<rparr> = env0"
    by (simp_all add: env0_def fun_eq_iff)
  obtain W where mt: "main_try env0 (world0\<lparr>stdout := stdout world0 @ [?rocket]\<rparr>) = (Inr (), W)"
    using main_try_env0 [OF s i e0, of "stdout world0 @ [?rocket]"] by blast
  then have "main env0 world0 = (Inr (), W)"
    by (simp add: main_unfold)
  with mt have m0: "main_try env0 (world0\<lparr>stdout := stdout world0 @ [?rocket]\<rparr>) =
      (Inr (), snd (main env0 world0))"
    by simp
  note ta = browser_launch_failure [of ?Ea world0 "snd (main env0 world0)", unfolded ea, OF m0]
  note tb = browser_launch_failure [of ?Eb world0 "snd (main env0 world0)", unfolded eb, OF m0]
  have a: "main ?Ea world0 = (Inr (), (snd (main env0 world0))\<lparr>browser := []\<rparr>)"
    using ta [THEN conjunct1] by (simp add: env0_def world0_def)
  have b: "fst (main ?Eb world0) = Inr ()" "fs (snd (main ?Eb world0)) = fs (snd (main env0 world0))"
    "last (stdout (snd (main ?Eb world0))) =
       emoji_cross @ '' Error creating visualization: [Errno 32] Broken pipe''"
    using tb [THEN conjunct2, rule_format, of ?e] by simp_all
  have "last (stdout (snd (main ?Ea world0))) = ''   - Interactive HTML: /work/docs/index.html''"
    unfolding a by (simp add: main_env0 [OF s i e0])
  with a b show ?thesis by blast
qed

end
